theory Spec2Isabelle
  imports Main "HOL-Library.Word"
begin

unbundle bit_operations_syntax

section \<open>Futaba 8-MD-06INK VFD driver (ftb-8-md.c, ftb-8-md.h)\<close>

text \<open>
  The driver builds a command in a 9-byte union \<open>DisplayCommand\<close> and hands it to the SPI
  transport of ESP-IDF. The transport, the GPIO driver, the scheduler delay and the logger are
  collaborators: every call to one of them is recorded as an event of a trace, and what a
  collaborator returns is a parameter of the model, a function of the trace so far and of the
  arguments of the call.
\<close>

subsection \<open>Basic types and constants\<close>

type_synonym u8 = "8 word"

text \<open>
  \<open>esp_err_t\<close> is the \<open>int\<close> of ESP-IDF's esp_err.h, which is not part of the repository;
  the two codes the driver names have the values of that header. The proofs only use that they
  differ.
\<close>

type_synonym esp_err_t = int

definition ESP_OK :: esp_err_t where
  "ESP_OK = 0"

definition ESP_ERR_INVALID_ARG :: esp_err_t where
  "ESP_ERR_INVALID_ARG = 0x102"

text \<open>A device handle is a pointer: \<open>None\<close> is \<open>NULL\<close>.\<close>

type_synonym spi_device_handle_t = "nat option"

type_synonym spi_host_device_t = nat

definition FTB8MD_NUM_DIGITS :: int where
  "FTB8MD_NUM_DIGITS = 8"

definition FTB8MD_MAX_DIMMING :: int where
  "FTB8MD_MAX_DIMMING = 240"

definition FTB8MD_SPI_CLOCK_HZ :: int where
  "FTB8MD_SPI_CLOCK_HZ = 500 * 1000"

definition CMD_PREFIX_DCRAM :: int where
  "CMD_PREFIX_DCRAM = 0x01"

definition CMD_PREFIX_CGRAM :: int where
  "CMD_PREFIX_CGRAM = 0x02"

definition CMD_PREFIX_ADRAM :: int where
  "CMD_PREFIX_ADRAM = 0x03"

definition CMD_PREFIX_URAM :: int where
  "CMD_PREFIX_URAM = 0x04"

definition CMD_DIGIT_SET :: int where
  "CMD_DIGIT_SET = 0xE0"

definition CMD_DIMMING :: int where
  "CMD_DIMMING = 0xE4"

definition CMD_DISPLAY_ON :: int where
  "CMD_DISPLAY_ON = 0xE8"

definition CMD_DISPLAY_OFF :: int where
  "CMD_DISPLAY_OFF = 0xEA"

definition CMD_MODE_NORMAL :: int where
  "CMD_MODE_NORMAL = 0xEC"

definition CMD_MODE_STANDBY :: int where
  "CMD_MODE_STANDBY = 0xED"

subsection \<open>The union DisplayCommand\<close>

text \<open>
  The union is its \<open>raw[9]\<close> view: a list of 9 bytes. \<open>DisplayCommand cmd = {0}\<close> is
  \<open>DisplayCommand_zero\<close>. A store to a member of another view is a store to the bytes and
  bits the header documents for it (bit-fields of a byte are allocated from bit 0 upwards, the
  layout the header's comments state: \<open>digit\<close> in B4-B0, \<open>prefix\<close> in B7-B5). A store to a
  bit-field keeps the low bits of the value, as the conversion to an unsigned bit-field does,
  and leaves the other bits of the byte as they are.
\<close>

type_synonym DisplayCommand = "u8 list"

definition DisplayCommand_zero :: DisplayCommand where
  "DisplayCommand_zero = replicate 9 0"

definition store_bits :: "nat \<Rightarrow> nat \<Rightarrow> int \<Rightarrow> u8 \<Rightarrow> u8" where
  "store_bits pos width v b =
     (b AND NOT (push_bit pos (mask width))) OR push_bit pos (word_of_int v AND mask width)"

definition set_ctrl_prefix :: "DisplayCommand \<Rightarrow> int \<Rightarrow> DisplayCommand" where
  "set_ctrl_prefix cmd v = cmd[0 := word_of_int v]"

definition set_ctrl_arg :: "DisplayCommand \<Rightarrow> int \<Rightarrow> DisplayCommand" where
  "set_ctrl_arg cmd v = cmd[1 := word_of_int v]"

definition set_dcram_byte1_digit :: "DisplayCommand \<Rightarrow> int \<Rightarrow> DisplayCommand" where
  "set_dcram_byte1_digit cmd v = cmd[0 := store_bits 0 5 v (cmd ! 0)]"

definition set_dcram_byte1_prefix :: "DisplayCommand \<Rightarrow> int \<Rightarrow> DisplayCommand" where
  "set_dcram_byte1_prefix cmd v = cmd[0 := store_bits 5 3 v (cmd ! 0)]"

definition set_dcram_chr :: "DisplayCommand \<Rightarrow> nat \<Rightarrow> u8 \<Rightarrow> DisplayCommand" where
  "set_dcram_chr cmd i v = cmd[1 + i := v]"

definition set_cgram_byte1_addr :: "DisplayCommand \<Rightarrow> int \<Rightarrow> DisplayCommand" where
  "set_cgram_byte1_addr cmd v = cmd[0 := store_bits 0 3 v (cmd ! 0)]"

definition set_cgram_byte1_prefix :: "DisplayCommand \<Rightarrow> int \<Rightarrow> DisplayCommand" where
  "set_cgram_byte1_prefix cmd v = cmd[0 := store_bits 5 3 v (cmd ! 0)]"

definition set_adram_byte1_digit :: "DisplayCommand \<Rightarrow> int \<Rightarrow> DisplayCommand" where
  "set_adram_byte1_digit cmd v = cmd[0 := store_bits 0 5 v (cmd ! 0)]"

definition set_adram_byte1_reserved :: "DisplayCommand \<Rightarrow> int \<Rightarrow> DisplayCommand" where
  "set_adram_byte1_reserved cmd v = cmd[0 := store_bits 5 3 v (cmd ! 0)]"

definition set_adram_byte2_pin :: "DisplayCommand \<Rightarrow> int \<Rightarrow> DisplayCommand" where
  "set_adram_byte2_pin cmd v = cmd[1 := store_bits 0 4 v (cmd ! 1)]"

text \<open>A read of a bit-field: \<open>width\<close> bits from bit \<open>pos\<close> of the byte.\<close>

definition load_bits :: "nat \<Rightarrow> nat \<Rightarrow> u8 \<Rightarrow> int" where
  "load_bits pos width b = uint (drop_bit pos b AND mask width)"

text \<open>
  \<open>memset (cmd.dcram_write.chr, c, n)\<close> and \<open>memcpy (cmd.cgram_write.data, src, n)\<close>: both
  members start at byte 1 of the union. The callers pass \<open>n \<le> 8\<close>, and a source of at least
  \<open>n\<close> bytes.
\<close>

definition memset_chr :: "DisplayCommand \<Rightarrow> u8 \<Rightarrow> nat \<Rightarrow> DisplayCommand" where
  "memset_chr cmd c n = take 1 cmd @ replicate n c @ drop (1 + n) cmd"

definition memcpy_data :: "DisplayCommand \<Rightarrow> u8 list \<Rightarrow> nat \<Rightarrow> DisplayCommand" where
  "memcpy_data cmd src n = take 1 cmd @ take n src @ drop (1 + n) cmd"

subsection \<open>Collaborators and the trace of their calls\<close>

record gpio_config_t =
  pin_bit_mask :: "64 word"
  mode_output :: bool
  pull_up_en :: bool
  pull_down_en :: bool
  intr_enabled :: bool

record spi_device_interface_config_t =
  clock_speed_hz :: int
  mode :: nat
  spics_io_num :: int
  queue_size :: nat
  flag_bit_lsbfirst :: bool

text \<open>
  \<open>spi_transaction_t\<close>: \<open>length\<close> is in bits; \<open>tx_buffer\<close> points to the union, here its
  9 bytes at the time of the call.
\<close>

record spi_transaction_t =
  length_bits :: nat
  tx_buffer :: "u8 list"

datatype event =
    Gpio_config gpio_config_t
  | Gpio_set_level int nat
  | VTaskDelay_ms nat
  | Spi_bus_add_device spi_host_device_t spi_device_interface_config_t
  | Spi_device_transmit spi_device_handle_t spi_transaction_t
  | Esp_loge string esp_err_t
  | Esp_logi string

record collaborators =
  gpio_config_ret :: "event list \<Rightarrow> gpio_config_t \<Rightarrow> esp_err_t"
  spi_bus_add_device_ret ::
    "event list \<Rightarrow> spi_host_device_t \<Rightarrow> spi_device_interface_config_t
       \<Rightarrow> esp_err_t \<times> spi_device_handle_t"
  spi_device_transmit_ret ::
    "event list \<Rightarrow> spi_device_handle_t \<Rightarrow> spi_transaction_t \<Rightarrow> esp_err_t"

text \<open>
  A call of \<open>spi_device_transmit\<close>: the call is recorded, and its result is the
  transport's.
\<close>

definition spi_device_transmit ::
  "collaborators \<Rightarrow> spi_device_handle_t \<Rightarrow> spi_transaction_t \<Rightarrow> event list
     \<Rightarrow> esp_err_t \<times> event list" where
  "spi_device_transmit env handle t tr =
     (spi_device_transmit_ret env tr handle t, tr @ [Spi_device_transmit handle t])"

text \<open>
  The bytes the transport puts on the wire for a transaction: the first \<open>length / 8\<close> bytes
  of the buffer.
\<close>

definition wire_bytes :: "spi_transaction_t \<Rightarrow> u8 list" where
  "wire_bytes t = take (length_bits t div 8) (tx_buffer t)"

fun transmissions :: "event list \<Rightarrow> spi_transaction_t list" where
  "transmissions [] = []"
| "transmissions (Spi_device_transmit h t # es) = t # transmissions es"
| "transmissions (e # es) = transmissions es"

text \<open>
  What a call put on the wire, and how many bytes each time: \<open>tr\<close> is the trace the call
  started from and \<open>tr'\<close> the trace it left.
\<close>

definition packets_sent :: "event list \<Rightarrow> event list \<Rightarrow> u8 list list" where
  "packets_sent tr tr' = map wire_bytes (transmissions (drop (length tr) tr'))"

definition sizes_sent :: "event list \<Rightarrow> event list \<Rightarrow> nat list" where
  "sizes_sent tr tr' = map length (packets_sent tr tr')"

text \<open>
  The size invariant of a transaction: its length is a whole number of bytes, all of them
  inside the buffer, at least 1 and at most 9, the size of the union.
\<close>

definition packet_size_ok :: "spi_transaction_t \<Rightarrow> bool" where
  "packet_size_ok t =
     (length_bits t = 8 * length (wire_bytes t)
      \<and> 1 \<le> length (wire_bytes t) \<and> length (wire_bytes t) \<le> 9)"

definition all_sizes_ok :: "event list \<Rightarrow> event list \<Rightarrow> bool" where
  "all_sizes_ok tr tr' = list_all packet_size_ok (transmissions (drop (length tr) tr'))"

subsection \<open>C strings\<close>

text \<open>
  A \<open>const char *\<close> is \<open>None\<close> for \<open>NULL\<close>, else the characters it points to; the string
  ends before the first NUL among them, or after the last of them.
\<close>

definition strlen :: "string \<Rightarrow> nat" where
  "strlen s = length (takeWhile (\<lambda>c. c \<noteq> CHR 0x00) s)"

subsection \<open>The driver\<close>

text \<open>
  \<open>cmd\<close> is \<open>None\<close> for a \<open>NULL\<close> pointer. \<open>len * 8\<close> is computed in \<open>size_t\<close>; the
  callers pass \<open>len \<le> 9\<close>, far from its wrap-around.
\<close>

definition ftb8md_send_command ::
  "collaborators \<Rightarrow> spi_device_handle_t \<Rightarrow> DisplayCommand option \<Rightarrow> nat \<Rightarrow> event list
     \<Rightarrow> esp_err_t \<times> event list" where
  "ftb8md_send_command env handle cmd len tr =
     (case cmd of
        None \<Rightarrow> (ESP_ERR_INVALID_ARG, tr)
      | Some raw \<Rightarrow>
          if handle = None \<or> len = 0 then (ESP_ERR_INVALID_ARG, tr)
          else
            let trans = \<lparr>length_bits = len * 8, tx_buffer = raw\<rparr>
            in spi_device_transmit env handle trans tr)"

text \<open>The copy loop of \<open>ftb8md_show_string\<close>, from index \<open>i\<close> on.\<close>

function show_string_loop :: "nat \<Rightarrow> nat \<Rightarrow> string \<Rightarrow> DisplayCommand \<Rightarrow> DisplayCommand" where
  "show_string_loop i chars_to_write str cmd =
     (if i < chars_to_write
      then show_string_loop (Suc i) chars_to_write str (set_dcram_chr cmd i (of_char (str ! i)))
      else cmd)"
  by pat_completeness auto
termination
  by (relation "measure (\<lambda>(i, n, s, c). n - i)") auto

declare show_string_loop.simps [simp del]

definition ftb8md_show_string ::
  "collaborators \<Rightarrow> spi_device_handle_t \<Rightarrow> int \<Rightarrow> string option \<Rightarrow> event list
     \<Rightarrow> esp_err_t \<times> event list" where
  "ftb8md_show_string env handle digit str tr =
     (case str of
        None \<Rightarrow> (ESP_ERR_INVALID_ARG, tr)
      | Some s \<Rightarrow>
          if handle = None then (ESP_ERR_INVALID_ARG, tr)
          else if digit < 0 \<or> digit \<ge> FTB8MD_NUM_DIGITS then (ESP_ERR_INVALID_ARG, tr)
          else
            let cmd = DisplayCommand_zero;
                cmd = set_dcram_byte1_prefix cmd CMD_PREFIX_DCRAM;
                cmd = set_dcram_byte1_digit cmd digit;
                max_chars = nat (FTB8MD_NUM_DIGITS - digit);
                str_len = strlen s;
                chars_to_write = (if str_len < max_chars then str_len else max_chars);
                cmd = show_string_loop 0 chars_to_write s cmd
            in ftb8md_send_command env handle (Some cmd) (1 + chars_to_write) tr)"

definition ftb8md_set_dimming ::
  "collaborators \<Rightarrow> spi_device_handle_t \<Rightarrow> u8 \<Rightarrow> event list \<Rightarrow> esp_err_t \<times> event list" where
  "ftb8md_set_dimming env handle level tr =
     (if handle = None then (ESP_ERR_INVALID_ARG, tr)
      else
        let cmd = DisplayCommand_zero;
            cmd = set_ctrl_prefix cmd CMD_DIMMING;
            cmd = set_ctrl_arg cmd
                    (if uint level > FTB8MD_MAX_DIMMING then FTB8MD_MAX_DIMMING else uint level)
        in ftb8md_send_command env handle (Some cmd) 2 tr)"

definition ftb8md_enter_standby ::
  "collaborators \<Rightarrow> spi_device_handle_t \<Rightarrow> bool \<Rightarrow> event list \<Rightarrow> esp_err_t \<times> event list" where
  "ftb8md_enter_standby env handle standby tr =
     (if handle = None then (ESP_ERR_INVALID_ARG, tr)
      else
        let cmd = DisplayCommand_zero;
            cmd = set_ctrl_prefix cmd (if standby then CMD_MODE_STANDBY else CMD_MODE_NORMAL)
        in ftb8md_send_command env handle (Some cmd) 2 tr)"

definition ftb8md_set_display_power ::
  "collaborators \<Rightarrow> spi_device_handle_t \<Rightarrow> bool \<Rightarrow> event list \<Rightarrow> esp_err_t \<times> event list" where
  "ftb8md_set_display_power env handle on tr =
     (if handle = None then (ESP_ERR_INVALID_ARG, tr)
      else
        let cmd = DisplayCommand_zero;
            cmd = set_ctrl_prefix cmd (if on then CMD_DISPLAY_ON else CMD_DISPLAY_OFF)
        in ftb8md_send_command env handle (Some cmd) 2 tr)"

definition ftb8md_set_dot ::
  "collaborators \<Rightarrow> spi_device_handle_t \<Rightarrow> int \<Rightarrow> bool \<Rightarrow> event list
     \<Rightarrow> esp_err_t \<times> event list" where
  "ftb8md_set_dot env handle digit dot_on tr =
     (if handle = None then (ESP_ERR_INVALID_ARG, tr)
      else if digit < 0 \<or> digit \<ge> FTB8MD_NUM_DIGITS then (ESP_ERR_INVALID_ARG, tr)
      else
        let cmd = DisplayCommand_zero;
            cmd = set_adram_byte1_reserved cmd CMD_PREFIX_ADRAM;
            cmd = set_adram_byte1_digit cmd digit;
            cmd = set_adram_byte2_pin cmd (if dot_on then 0x01 else 0x00)
        in ftb8md_send_command env handle (Some cmd) 2 tr)"

definition ftb8md_set_segment ::
  "collaborators \<Rightarrow> spi_device_handle_t \<Rightarrow> int \<Rightarrow> u8 \<Rightarrow> event list
     \<Rightarrow> esp_err_t \<times> event list" where
  "ftb8md_set_segment env handle digit segments tr =
     (if handle = None then (ESP_ERR_INVALID_ARG, tr)
      else if digit < 0 \<or> digit \<ge> FTB8MD_NUM_DIGITS then (ESP_ERR_INVALID_ARG, tr)
      else
        let cmd = DisplayCommand_zero;
            cmd = set_dcram_byte1_prefix cmd CMD_PREFIX_DCRAM;
            cmd = set_dcram_byte1_digit cmd digit;
            cmd = set_dcram_chr cmd 0 segments
        in ftb8md_send_command env handle (Some cmd) 2 tr)"

text \<open>The loop of \<open>ftb8md_clear_display\<close> over the decimal points, from digit \<open>i\<close> on.\<close>

function clear_display_loop ::
  "collaborators \<Rightarrow> spi_device_handle_t \<Rightarrow> int \<Rightarrow> event list \<Rightarrow> esp_err_t \<times> event list" where
  "clear_display_loop env handle i tr =
     (if i < FTB8MD_NUM_DIGITS
      then
        (case ftb8md_set_dot env handle i False tr of
           (ret, tr') \<Rightarrow>
             if ret \<noteq> ESP_OK then (ret, tr')
             else clear_display_loop env handle (i + 1) tr')
      else (ESP_OK, tr))"
  by pat_completeness auto
termination
  by (relation "measure (\<lambda>(env, h, i, tr). nat (FTB8MD_NUM_DIGITS - i))")
     (auto simp: FTB8MD_NUM_DIGITS_def)

declare clear_display_loop.simps [simp del]

definition ftb8md_clear_display ::
  "collaborators \<Rightarrow> spi_device_handle_t \<Rightarrow> event list \<Rightarrow> esp_err_t \<times> event list" where
  "ftb8md_clear_display env handle tr =
     (if handle = None then (ESP_ERR_INVALID_ARG, tr)
      else
        let cmd = DisplayCommand_zero;
            cmd = set_dcram_byte1_prefix cmd CMD_PREFIX_DCRAM;
            cmd = set_dcram_byte1_digit cmd 0;
            cmd = memset_chr cmd 0x20 (nat FTB8MD_NUM_DIGITS)
        in case ftb8md_send_command env handle (Some cmd) (nat (1 + FTB8MD_NUM_DIGITS)) tr of
             (ret, tr') \<Rightarrow>
               if ret \<noteq> ESP_OK then (ret, tr')
               else clear_display_loop env handle 0 tr')"

definition ftb8md_write_custom_char ::
  "collaborators \<Rightarrow> spi_device_handle_t \<Rightarrow> int \<Rightarrow> u8 list option \<Rightarrow> event list
     \<Rightarrow> esp_err_t \<times> event list" where
  "ftb8md_write_custom_char env handle char_index grid_data tr =
     (case grid_data of
        None \<Rightarrow> (ESP_ERR_INVALID_ARG, tr)
      | Some g \<Rightarrow>
          if handle = None then (ESP_ERR_INVALID_ARG, tr)
          else if char_index < 0 \<or> char_index > 7 then (ESP_ERR_INVALID_ARG, tr)
          else
            let cmd = DisplayCommand_zero;
                cmd = set_cgram_byte1_prefix cmd CMD_PREFIX_CGRAM;
                cmd = set_cgram_byte1_addr cmd char_index;
                cmd = memcpy_data cmd g 5
            in ftb8md_send_command env handle (Some cmd) 6 tr)"

definition ftb8md_set_addressed_char ::
  "collaborators \<Rightarrow> spi_device_handle_t \<Rightarrow> int \<Rightarrow> int \<Rightarrow> event list
     \<Rightarrow> esp_err_t \<times> event list" where
  "ftb8md_set_addressed_char env handle digit char_index tr =
     (if handle = None then (ESP_ERR_INVALID_ARG, tr)
      else if digit < 0 \<or> digit \<ge> FTB8MD_NUM_DIGITS then (ESP_ERR_INVALID_ARG, tr)
      else if char_index < 0 \<or> char_index > 7 then (ESP_ERR_INVALID_ARG, tr)
      else
        let cmd = DisplayCommand_zero;
            cmd = set_dcram_byte1_prefix cmd CMD_PREFIX_DCRAM;
            cmd = set_dcram_byte1_digit cmd digit;
            cmd = set_dcram_chr cmd 0 (word_of_int char_index)
        in ftb8md_send_command env handle (Some cmd) 2 tr)"

text \<open>
  \<open>ftb8md_device_register\<close>. \<open>1ULL << reset_pin\<close> is a shift of a 64-bit value.
  \<open>vTaskDelay (pdMS_TO_TICKS (10))\<close> is recorded with its argument in milliseconds. The
  value \<open>ftb8md_set_dimming\<close> returns is dropped, as the source drops it.
\<close>

definition ftb8md_device_register ::
  "collaborators \<Rightarrow> spi_host_device_t \<Rightarrow> int \<Rightarrow> int \<Rightarrow> event list
     \<Rightarrow> spi_device_handle_t \<times> event list" where
  "ftb8md_device_register env host_id cs_pin reset_pin tr =
     (let io_conf = \<lparr>pin_bit_mask = push_bit (nat reset_pin) 1, mode_output = True,
                     pull_up_en = False, pull_down_en = False, intr_enabled = False\<rparr>;
          gpio_ret = (if reset_pin \<ge> 0 then gpio_config_ret env tr io_conf else ESP_OK)
      in
        if reset_pin \<ge> 0 \<and> gpio_ret \<noteq> ESP_OK
        then (None, tr @ [Gpio_config io_conf,
                          Esp_loge ''Failed to configure reset pin'' gpio_ret])
        else
          let tr = (if reset_pin \<ge> 0
                    then tr @ [Gpio_config io_conf,
                               Gpio_set_level reset_pin 0, VTaskDelay_ms 10,
                               Gpio_set_level reset_pin 1, VTaskDelay_ms 10]
                    else tr);
              dev_cfg = \<lparr>clock_speed_hz = FTB8MD_SPI_CLOCK_HZ, mode = 3,
                         spics_io_num = cs_pin, queue_size = 1, flag_bit_lsbfirst = True\<rparr>;
              added = spi_bus_add_device_ret env tr host_id dev_cfg;
              tr = tr @ [Spi_bus_add_device host_id dev_cfg]
          in
            if fst added \<noteq> ESP_OK
            then (None, tr @ [Esp_loge ''Failed to add SPI device'' (fst added)])
            else
              let handle = snd added;
                  cmd = DisplayCommand_zero;
                  cmd = set_ctrl_prefix cmd CMD_DIGIT_SET;
                  cmd = set_ctrl_arg cmd (FTB8MD_NUM_DIGITS - 1);
                  sent = ftb8md_send_command env handle (Some cmd) 2 tr;
                  tr = (if fst sent \<noteq> ESP_OK
                        then snd sent @ [Esp_loge ''Failed to set digit count'' (fst sent)]
                        else snd sent);
                  tr = snd (ftb8md_set_dimming env handle (word_of_int FTB8MD_MAX_DIMMING) tr);
                  cmd = set_ctrl_prefix cmd CMD_DISPLAY_ON;
                  sent = ftb8md_send_command env handle (Some cmd) 2 tr;
                  tr = (if fst sent \<noteq> ESP_OK
                        then snd sent @ [Esp_loge ''Failed to turn on display'' (fst sent)]
                        else snd sent)
              in (handle, tr @ [Esp_logi ''VFD display initialized successfully'']))"

subsection \<open>Collaborators for scenarios\<close>

text \<open>
  Collaborators that all succeed, with \<open>1\<close> as the handle of the bound device.
\<close>

definition reliable_collaborators :: collaborators where
  "reliable_collaborators =
     \<lparr>gpio_config_ret = (\<lambda>tr c. ESP_OK),
      spi_bus_add_device_ret = (\<lambda>tr host c. (ESP_OK, Some 1)),
      spi_device_transmit_ret = (\<lambda>tr h t. ESP_OK)\<rparr>"

text \<open>
  The same collaborators, but for the transport: its transmission number \<open>k\<close> (counted
  from 0 over the whole trace) fails with the code \<open>e\<close>.
\<close>

definition failing_transport :: "nat \<Rightarrow> esp_err_t \<Rightarrow> collaborators" where
  "failing_transport k e =
     \<lparr>gpio_config_ret = (\<lambda>tr c. ESP_OK),
      spi_bus_add_device_ret = (\<lambda>tr host c. (ESP_OK, Some 1)),
      spi_device_transmit_ret =
        (\<lambda>tr h t. if length (transmissions tr) = k then e else ESP_OK)\<rparr>"

subsection \<open>Sequences of transmissions\<close>

text \<open>
  The reference behaviour of a composite operation: transmit the transactions of a list one
  after the other, and stop with the result of the first that fails.
\<close>

fun transmit_until_failure ::
  "collaborators \<Rightarrow> spi_device_handle_t \<Rightarrow> spi_transaction_t list \<Rightarrow> event list
     \<Rightarrow> esp_err_t \<times> event list" where
  "transmit_until_failure env h [] tr = (ESP_OK, tr)"
| "transmit_until_failure env h (t # ts) tr =
     (case spi_device_transmit env h t tr of
        (ret, tr') \<Rightarrow>
          if ret \<noteq> ESP_OK then (ret, tr') else transmit_until_failure env h ts tr')"

text \<open>
  What the transport answers to transaction number \<open>k\<close> of the list \<open>ts\<close>, once those
  before it have been transmitted from the trace \<open>tr\<close>.
\<close>

definition nth_result ::
  "collaborators \<Rightarrow> spi_device_handle_t \<Rightarrow> spi_transaction_t list \<Rightarrow> event list \<Rightarrow> nat
     \<Rightarrow> esp_err_t" where
  "nth_result env h ts tr k =
     spi_device_transmit_ret env (tr @ map (Spi_device_transmit h) (take k ts)) h (ts ! k)"

text \<open>
  The transmissions that completed: among the events \<open>evs\<close> that follow the trace \<open>tr\<close>,
  the transactions the transport answered with \<open>ESP_OK\<close>. \<open>completed_since tr tr'\<close> are
  those of a call that started from \<open>tr\<close> and left \<open>tr'\<close>.
\<close>

fun completed :: "collaborators \<Rightarrow> event list \<Rightarrow> event list \<Rightarrow> spi_transaction_t list" where
  "completed env tr [] = []"
| "completed env tr (Spi_device_transmit h t # es) =
     (if spi_device_transmit_ret env tr h t = ESP_OK then [t] else [])
       @ completed env (tr @ [Spi_device_transmit h t]) es"
| "completed env tr (e # es) = completed env (tr @ [e]) es"

definition completed_since ::
  "collaborators \<Rightarrow> event list \<Rightarrow> event list \<Rightarrow> spi_transaction_t list" where
  "completed_since env tr tr' = completed env tr (drop (length tr) tr')"

text \<open>
  The transactions of a complete clear: 8 spaces from digit 0 (9 bytes), then for each digit
  an ADRAM write with the pin nibble 0 (2 bytes).
\<close>

definition dot_off_transaction :: "nat \<Rightarrow> spi_transaction_t" where
  "dot_off_transaction i =
     \<lparr>length_bits = 16, tx_buffer = [0x60 + of_nat i, 0, 0, 0, 0, 0, 0, 0, 0]\<rparr>"

definition clear_display_transactions :: "spi_transaction_t list" where
  "clear_display_transactions =
     \<lparr>length_bits = 72,
      tx_buffer = [0x20, 0x20, 0x20, 0x20, 0x20, 0x20, 0x20, 0x20, 0x20]\<rparr>
       # map dot_off_transaction [0..<8]"

section \<open>Properties\<close>

subsection \<open>The packet of each operation\<close>

lemmas cmd_defs = DisplayCommand_zero_def set_ctrl_prefix_def set_ctrl_arg_def
  set_dcram_byte1_digit_def set_dcram_byte1_prefix_def set_dcram_chr_def
  set_cgram_byte1_addr_def set_cgram_byte1_prefix_def set_adram_byte1_digit_def
  set_adram_byte1_reserved_def set_adram_byte2_pin_def memset_chr_def memcpy_data_def

lemmas const_defs = FTB8MD_NUM_DIGITS_def FTB8MD_MAX_DIMMING_def CMD_PREFIX_DCRAM_def
  CMD_PREFIX_CGRAM_def CMD_PREFIX_ADRAM_def CMD_DIGIT_SET_def CMD_DIMMING_def
  CMD_DISPLAY_ON_def CMD_DISPLAY_OFF_def CMD_MODE_NORMAL_def CMD_MODE_STANDBY_def

lemma replicate_9: "replicate 9 x = [x, x, x, x, x, x, x, x, x]"
  by (simp add: numeral_eq_Suc)

lemma digit_cases:
  fixes d :: int
  assumes "0 \<le> d" "d < 8"
  shows "d = 0 \<or> d = 1 \<or> d = 2 \<or> d = 3 \<or> d = 4 \<or> d = 5 \<or> d = 6 \<or> d = 7"
  using assms by arith

lemma dcram_byte1:
  assumes "0 \<le> d" "d < 8"
  shows "store_bits 0 5 d (store_bits 5 3 1 0) = 0x20 + word_of_int d"
  using digit_cases [OF assms] by (auto simp: store_bits_def mask_eq_exp_minus_1)

lemma adram_byte1:
  assumes "0 \<le> d" "d < 8"
  shows "store_bits 0 5 d (store_bits 5 3 3 0) = 0x60 + word_of_int d"
  using digit_cases [OF assms] by (auto simp: store_bits_def mask_eq_exp_minus_1)

lemma cgram_byte1:
  assumes "0 \<le> d" "d < 8"
  shows "store_bits 0 3 d (store_bits 5 3 2 0) = 0x40 + word_of_int d"
  using digit_cases [OF assms] by (auto simp: store_bits_def mask_eq_exp_minus_1)

lemma packets_sent_transmit:
  "packets_sent tr (snd (spi_device_transmit env h t tr)) = [wire_bytes t]"
  by (simp add: packets_sent_def spi_device_transmit_def)

lemma fst_transmit:
  "fst (spi_device_transmit env h t tr) = spi_device_transmit_ret env tr h t"
  by (simp add: spi_device_transmit_def)

lemma packets_sent_none: "packets_sent tr tr = []"
  by (simp add: packets_sent_def)

lemma enter_standby_transmit:
  "ftb8md_enter_standby env (Some h) standby tr =
     spi_device_transmit env (Some h)
       \<lparr>length_bits = 16, tx_buffer = [if standby then 0xED else 0xEC, 0, 0, 0, 0, 0, 0, 0, 0]\<rparr> tr"
  by (simp add: ftb8md_enter_standby_def ftb8md_send_command_def cmd_defs const_defs replicate_9)

lemma set_display_power_transmit:
  "ftb8md_set_display_power env (Some h) on tr =
     spi_device_transmit env (Some h)
       \<lparr>length_bits = 16, tx_buffer = [if on then 0xE8 else 0xEA, 0, 0, 0, 0, 0, 0, 0, 0]\<rparr> tr"
  by (simp add: ftb8md_set_display_power_def ftb8md_send_command_def cmd_defs const_defs replicate_9)

lemma set_dimming_transmit:
  "ftb8md_set_dimming env (Some h) level tr =
     spi_device_transmit env (Some h)
       \<lparr>length_bits = 16,
        tx_buffer = [0xE4, if 240 < level then 240 else level, 0, 0, 0, 0, 0, 0, 0]\<rparr> tr"
  by (simp add: ftb8md_set_dimming_def ftb8md_send_command_def cmd_defs const_defs replicate_9
      word_less_def)

lemma set_dot_transmit:
  assumes "0 \<le> digit" "digit < 8"
  shows "ftb8md_set_dot env (Some h) digit dot_on tr =
     spi_device_transmit env (Some h)
       \<lparr>length_bits = 16,
        tx_buffer = [0x60 + word_of_int digit, if dot_on then 1 else 0, 0, 0, 0, 0, 0, 0, 0]\<rparr> tr"
  using assms
  by (simp add: ftb8md_set_dot_def ftb8md_send_command_def cmd_defs const_defs replicate_9
      adram_byte1) (simp add: store_bits_def mask_eq_exp_minus_1)

lemma set_segment_transmit:
  assumes "0 \<le> digit" "digit < 8"
  shows "ftb8md_set_segment env (Some h) digit segments tr =
     spi_device_transmit env (Some h)
       \<lparr>length_bits = 16,
        tx_buffer = [0x20 + word_of_int digit, segments, 0, 0, 0, 0, 0, 0, 0]\<rparr> tr"
  using assms
  by (simp add: ftb8md_set_segment_def ftb8md_send_command_def cmd_defs const_defs replicate_9
      dcram_byte1)

lemma set_addressed_char_transmit:
  assumes "0 \<le> digit" "digit < 8" "0 \<le> char_index" "char_index \<le> 7"
  shows "ftb8md_set_addressed_char env (Some h) digit char_index tr =
     spi_device_transmit env (Some h)
       \<lparr>length_bits = 16,
        tx_buffer = [0x20 + word_of_int digit, word_of_int char_index, 0, 0, 0, 0, 0, 0, 0]\<rparr> tr"
  using assms
  by (simp add: ftb8md_set_addressed_char_def ftb8md_send_command_def cmd_defs const_defs
      replicate_9 dcram_byte1)

lemma write_custom_char_transmit:
  assumes "0 \<le> char_index" "char_index \<le> 7" "length p = 5"
  shows "ftb8md_write_custom_char env (Some h) char_index (Some p) tr =
     spi_device_transmit env (Some h)
       \<lparr>length_bits = 48, tx_buffer = (0x40 + word_of_int char_index) # p @ [0, 0, 0]\<rparr> tr"
  using assms
  by (simp add: ftb8md_write_custom_char_def ftb8md_send_command_def cmd_defs const_defs
      replicate_9 cgram_byte1)

subsection \<open>Claims about single packets\<close>

text \<open>
  C7: on a non-null handle, \<open>ftb8md_enter_standby\<close> with \<open>true\<close> and with \<open>false\<close>
  each put one 2-byte control packet on the wire; the two packets differ in the opcode byte
  (\<open>0xED\<close> standby, \<open>0xEC\<close> normal) and the argument byte is zero in both.
\<close>

theorem enter_standby_packets:
  "packets_sent tr (snd (ftb8md_enter_standby env (Some h) True tr))
     = [[word_of_int CMD_MODE_STANDBY, 0x00]]
   \<and> packets_sent tr (snd (ftb8md_enter_standby env (Some h) False tr))
     = [[word_of_int CMD_MODE_NORMAL, 0x00]]
   \<and> (word_of_int CMD_MODE_STANDBY :: u8) \<noteq> word_of_int CMD_MODE_NORMAL"
  by (simp add: enter_standby_transmit packets_sent_transmit wire_bytes_def
      CMD_MODE_STANDBY_def CMD_MODE_NORMAL_def)

text \<open>
  C5: for every level above 240, \<open>ftb8md_set_dimming\<close> on a non-null handle does what it
  does for level 240: the same transaction, hence the same result and trace. The packet is
  \<open>[0xE4, 0xF0]\<close>, and the value returned is the transport's: the level is saturated, the
  call is not rejected.
\<close>

theorem set_dimming_saturates:
  assumes "240 < level"
  shows "ftb8md_set_dimming env (Some h) level tr = ftb8md_set_dimming env (Some h) 240 tr
       \<and> packets_sent tr (snd (ftb8md_set_dimming env (Some h) level tr)) = [[0xE4, 0xF0]]
       \<and> fst (ftb8md_set_dimming env (Some h) level tr) =
           spi_device_transmit_ret env tr (Some h)
             \<lparr>length_bits = 16, tx_buffer = [0xE4, 0xF0, 0, 0, 0, 0, 0, 0, 0]\<rparr>"
  using assms
  by (simp add: set_dimming_transmit packets_sent_transmit wire_bytes_def fst_transmit)

theorem set_dimming_saturates_witness:
  "(240 :: u8) < 255
   \<and> (ftb8md_set_dimming reliable_collaborators (Some 1) 255 []
         = ftb8md_set_dimming reliable_collaborators (Some 1) 240 []
       \<and> packets_sent [] (snd (ftb8md_set_dimming reliable_collaborators (Some 1) 255 []))
         = [[0xE4, 0xF0]]
       \<and> fst (ftb8md_set_dimming reliable_collaborators (Some 1) 255 []) =
           spi_device_transmit_ret reliable_collaborators [] (Some 1)
             \<lparr>length_bits = 16, tx_buffer = [0xE4, 0xF0, 0, 0, 0, 0, 0, 0, 0]\<rparr>)"
proof -
  have h: "(240 :: u8) < 255" by simp
  show ?thesis
    by (rule conjI [OF h set_dimming_saturates [OF h]])
qed

text \<open>
  C10: for a non-null handle, a digit in [0,7] and a character index in [0,7],
  \<open>ftb8md_set_addressed_char\<close> does what \<open>ftb8md_set_segment\<close> does with the index as the
  segment byte: the same result and trace, one 2-byte DCRAM packet whose payload byte is the
  index.
\<close>

theorem addressed_char_equals_segment:
  assumes "0 \<le> digit" "digit \<le> 7" "0 \<le> char_index" "char_index \<le> 7"
  shows "ftb8md_set_addressed_char env (Some h) digit char_index tr
           = ftb8md_set_segment env (Some h) digit (word_of_int char_index) tr
       \<and> packets_sent tr (snd (ftb8md_set_addressed_char env (Some h) digit char_index tr))
           = [[0x20 + word_of_int digit, word_of_int char_index]]
       \<and> packets_sent tr (snd (ftb8md_set_segment env (Some h) digit (word_of_int char_index) tr))
           = [[0x20 + word_of_int digit, word_of_int char_index]]"
  using assms
  by (simp add: set_addressed_char_transmit set_segment_transmit packets_sent_transmit
      wire_bytes_def)

theorem addressed_char_equals_segment_witness:
  "(0 :: int) \<le> 3 \<and> (3 :: int) \<le> 7 \<and> (0 :: int) \<le> 5 \<and> (5 :: int) \<le> 7
   \<and> (ftb8md_set_addressed_char reliable_collaborators (Some 1) 3 5 []
           = ftb8md_set_segment reliable_collaborators (Some 1) 3 (word_of_int 5) []
       \<and> packets_sent [] (snd (ftb8md_set_addressed_char reliable_collaborators (Some 1) 3 5 []))
           = [[0x20 + word_of_int 3, word_of_int 5]]
       \<and> packets_sent []
             (snd (ftb8md_set_segment reliable_collaborators (Some 1) 3 (word_of_int 5) []))
           = [[0x20 + word_of_int 3, word_of_int 5]])"
proof -
  have h1: "(0 :: int) \<le> 3" and h2: "(3 :: int) \<le> 7"
    and h3: "(0 :: int) \<le> 5" and h4: "(5 :: int) \<le> 7"
    by simp_all
  show ?thesis
    by (rule conjI [OF h1 conjI [OF h2 conjI [OF h3 conjI [OF h4
          addressed_char_equals_segment [OF h1 h2 h3 h4]]]]])
qed

text \<open>
  C4: for a digit outside [0,7], each operation that takes a digit returns
  \<open>ESP_ERR_INVALID_ARG\<close> and leaves the trace as it was: no collaborator is called, so
  nothing is transmitted. This holds for every handle, string, segment byte and index.
\<close>

theorem invalid_digit_rejected:
  assumes "digit < 0 \<or> 7 < digit"
  shows "ftb8md_show_string env handle digit str tr = (ESP_ERR_INVALID_ARG, tr)
       \<and> ftb8md_set_dot env handle digit dot_on tr = (ESP_ERR_INVALID_ARG, tr)
       \<and> ftb8md_set_segment env handle digit segments tr = (ESP_ERR_INVALID_ARG, tr)
       \<and> ftb8md_set_addressed_char env handle digit char_index tr = (ESP_ERR_INVALID_ARG, tr)"
  using assms
  by (auto simp: ftb8md_show_string_def ftb8md_set_dot_def ftb8md_set_segment_def
      ftb8md_set_addressed_char_def FTB8MD_NUM_DIGITS_def split: option.splits)

theorem invalid_digit_rejected_witness:
  "((8 :: int) < 0 \<or> 7 < (8 :: int))
   \<and> (ftb8md_show_string reliable_collaborators (Some 1) 8 (Some ''HELLO'') []
           = (ESP_ERR_INVALID_ARG, [])
       \<and> ftb8md_set_dot reliable_collaborators (Some 1) 8 True [] = (ESP_ERR_INVALID_ARG, [])
       \<and> ftb8md_set_segment reliable_collaborators (Some 1) 8 0xFF []
           = (ESP_ERR_INVALID_ARG, [])
       \<and> ftb8md_set_addressed_char reliable_collaborators (Some 1) 8 0 []
           = (ESP_ERR_INVALID_ARG, []))"
proof -
  have h: "(8 :: int) < 0 \<or> 7 < (8 :: int)" by simp
  show ?thesis
    by (rule conjI [OF h invalid_digit_rejected [OF h]])
qed

text \<open>
  C6: for a character index in [0,7] and a pattern \<open>p\<close> of 5 bytes,
  \<open>ftb8md_write_custom_char\<close> on a non-null handle puts one packet of 6 bytes on the wire:
  a first byte whose bits 0-2 read back the index and whose bits 5-7 read back the CGRAM
  prefix \<open>0b010\<close> (bits 3-4 are zero), followed by the 5 bytes of \<open>p\<close> as they are. Nothing
  is assumed of the bytes of \<open>p\<close>, bit 7 included.
\<close>

theorem write_custom_char_roundtrip:
  assumes "0 \<le> char_index" "char_index \<le> 7" "length p = 5"
  shows "\<exists>byte1. packets_sent tr (snd (ftb8md_write_custom_char env (Some h) char_index (Some p) tr))
                   = [byte1 # p]
           \<and> length (byte1 # p) = 6
           \<and> load_bits 0 3 byte1 = char_index
           \<and> load_bits 5 3 byte1 = CMD_PREFIX_CGRAM
           \<and> load_bits 3 2 byte1 = 0"
proof -
  have "load_bits 0 3 (0x40 + word_of_int char_index) = char_index
      \<and> load_bits 5 3 (0x40 + word_of_int char_index) = 2
      \<and> load_bits 3 2 (0x40 + word_of_int char_index) = 0"
    using digit_cases [of char_index] assms
    by (auto simp: load_bits_def mask_eq_exp_minus_1)
  then show ?thesis using assms
    by (simp add: write_custom_char_transmit packets_sent_transmit wire_bytes_def
        CMD_PREFIX_CGRAM_def)
qed

theorem write_custom_char_roundtrip_witness:
  "(0 :: int) \<le> 5 \<and> (5 :: int) \<le> 7 \<and> length [0x1F, 0x91, 0xFF, 0x00, 0x80 :: u8] = 5
   \<and> (\<exists>byte1. packets_sent []
                 (snd (ftb8md_write_custom_char reliable_collaborators (Some 1) 5
                        (Some [0x1F, 0x91, 0xFF, 0x00, 0x80]) []))
                   = [byte1 # [0x1F, 0x91, 0xFF, 0x00, 0x80]]
           \<and> length (byte1 # [0x1F, 0x91, 0xFF, 0x00, 0x80 :: u8]) = 6
           \<and> load_bits 0 3 byte1 = 5
           \<and> load_bits 5 3 byte1 = CMD_PREFIX_CGRAM
           \<and> load_bits 3 2 byte1 = 0)"
proof -
  have h1: "(0 :: int) \<le> 5" and h2: "(5 :: int) \<le> 7"
    and h3: "length [0x1F, 0x91, 0xFF, 0x00, 0x80 :: u8] = 5"
    by simp_all
  show ?thesis
    by (rule conjI [OF h1 conjI [OF h2 conjI [OF h3
          write_custom_char_roundtrip [OF h1 h2 h3]]]])
qed

subsection \<open>Writing a string\<close>

lemma show_string_loop_length:
  "length (show_string_loop i n s cmd) = length cmd"
proof (induction i n s cmd rule: show_string_loop.induct)
  case (1 i n s cmd)
  then show ?case
    by (subst show_string_loop.simps) (simp add: set_dcram_chr_def)
qed

lemma show_string_loop_nth:
  "k < length cmd \<Longrightarrow>
   show_string_loop i n s cmd ! k =
     (if Suc i \<le> k \<and> k \<le> n then of_char (s ! (k - 1)) else cmd ! k)"
proof (induction i n s cmd rule: show_string_loop.induct)
  case (1 i n s cmd)
  show ?case
  proof (cases "i < n")
    case True
    have "k = Suc i \<or> k \<le> i \<or> Suc (Suc i) \<le> k" by arith
    then show ?thesis
      using 1 True
      by (subst show_string_loop.simps) (auto simp: set_dcram_chr_def nth_list_update)
  next
    case False
    then show ?thesis by (subst show_string_loop.simps) auto
  qed
qed

lemma strlen_le: "strlen s \<le> length s"
  by (simp add: strlen_def length_takeWhile_le)

lemma show_string_loop_buffer:
  assumes "length cmd = 9" "n \<le> 8" "n \<le> length s"
  shows "show_string_loop 0 n s cmd = cmd ! 0 # map of_char (take n s) @ drop (Suc n) cmd"
proof (rule nth_equalityI)
  show "length (show_string_loop 0 n s cmd)
      = length (cmd ! 0 # map of_char (take n s) @ drop (Suc n) cmd)"
    using assms by (simp add: show_string_loop_length)
next
  fix k assume "k < length (show_string_loop 0 n s cmd)"
  then have k: "k < 9" using assms by (simp add: show_string_loop_length)
  show "show_string_loop 0 n s cmd ! k
      = (cmd ! 0 # map of_char (take n s) @ drop (Suc n) cmd) ! k"
  proof (cases k)
    case 0
    then show ?thesis using assms by (simp add: show_string_loop_nth)
  next
    case (Suc j)
    then show ?thesis using assms k
      by (auto simp: show_string_loop_nth nth_append)
  qed
qed

lemma show_string_transmit:
  assumes "0 \<le> digit" "digit < 8"
  shows "ftb8md_show_string env (Some h) digit (Some s) tr =
     spi_device_transmit env (Some h)
       \<lparr>length_bits = (1 + min (strlen s) (nat (8 - digit))) * 8,
        tx_buffer = (0x20 + word_of_int digit)
                      # map of_char (take (min (strlen s) (nat (8 - digit))) s)
                      @ replicate (8 - min (strlen s) (nat (8 - digit))) 0\<rparr> tr"
proof -
  define n where "n = min (strlen s) (nat (8 - digit))"
  have n: "n \<le> 8" "n \<le> length s"
    using assms strlen_le [of s] by (auto simp: n_def)
  have ctw: "(if strlen s < nat (8 - digit) then strlen s else nat (8 - digit)) = n"
    by (simp add: n_def min_def)
  have hdr: "set_dcram_byte1_digit (set_dcram_byte1_prefix DisplayCommand_zero CMD_PREFIX_DCRAM) digit
      = (0x20 + word_of_int digit) # replicate 8 0"
  proof -
    have "replicate 9 (0 :: u8) = 0 # replicate 8 0"
      by (simp add: numeral_eq_Suc)
    then show ?thesis
      using assms by (simp add: cmd_defs const_defs dcram_byte1)
  qed
  have "show_string_loop 0 n s ((0x20 + word_of_int digit) # replicate 8 0)
      = (0x20 + word_of_int digit) # map of_char (take n s) @ replicate (8 - n) 0"
    using n by (subst show_string_loop_buffer) simp_all
  then show ?thesis
    using assms n
    by (simp add: ftb8md_show_string_def ftb8md_send_command_def FTB8MD_NUM_DIGITS_def
        Let_def ctw hdr flip: n_def)
qed

lemma load_dcram_byte1:
  assumes "0 \<le> d" "d < 8"
  shows "load_bits 5 3 (0x20 + word_of_int d) = 1" "load_bits 0 5 (0x20 + word_of_int d) = d"
  using digit_cases [OF assms] by (auto simp: load_bits_def mask_eq_exp_minus_1)

text \<open>
  C1: for a non-null handle, a digit in [0,7] and a non-null string \<open>str\<close>,
  \<open>ftb8md_show_string\<close> puts one packet on the wire, of \<open>1 + n\<close> bytes for
  \<open>n = min (strlen str) (8 - digit)\<close>: a first byte whose bits 5-7 read back the DCRAM
  prefix \<open>0b001\<close> and whose bits 0-4 read back the digit, then the codes of the first \<open>n\<close>
  characters of \<open>str\<close>. The characters after them are dropped, and the value returned is
  the transport's result for this transaction: truncation is no error.
\<close>

theorem show_string_packet:
  fixes str :: string and digit :: int
  defines "n \<equiv> min (strlen str) (nat (8 - digit))"
  assumes "0 \<le> digit" "digit \<le> 7"
  shows "packets_sent tr (snd (ftb8md_show_string env (Some h) digit (Some str) tr))
           = [(0x20 + word_of_int digit) # map of_char (take n str)]
       \<and> length ((0x20 + word_of_int digit :: u8) # map of_char (take n str)) = 1 + n
       \<and> load_bits 5 3 (0x20 + word_of_int digit) = CMD_PREFIX_DCRAM
       \<and> load_bits 0 5 (0x20 + word_of_int digit) = digit
       \<and> fst (ftb8md_show_string env (Some h) digit (Some str) tr)
           = spi_device_transmit_ret env tr (Some h)
               \<lparr>length_bits = (1 + n) * 8,
                tx_buffer = (0x20 + word_of_int digit) # map of_char (take n str)
                              @ replicate (8 - n) 0\<rparr>"
proof -
  have n: "n \<le> length str" "n \<le> 8"
    using assms strlen_le [of str] by (auto simp: n_def)
  show ?thesis
    using assms(2,3) n
    by (simp add: show_string_transmit packets_sent_transmit fst_transmit wire_bytes_def
        load_dcram_byte1 CMD_PREFIX_DCRAM_def flip: n_def)
qed

theorem show_string_packet_witness:
  "packets_sent [] (snd (ftb8md_show_string reliable_collaborators (Some 1) 6 (Some ''HELLO'') []))
     = [[0x26, 0x48, 0x45]]
   \<and> fst (ftb8md_show_string reliable_collaborators (Some 1) 6 (Some ''HELLO'') []) = ESP_OK"
  using show_string_packet [of 6 "[]" reliable_collaborators 1 "''HELLO''"]
  by (simp add: strlen_def reliable_collaborators_def)

subsection \<open>Clearing the display\<close>

lemma nth_result_Cons_0: "nth_result env h (t # ts) tr 0 = spi_device_transmit_ret env tr h t"
  by (simp add: nth_result_def)

lemma nth_result_Cons_Suc:
  "nth_result env h (t # ts) tr (Suc k) = nth_result env h ts (tr @ [Spi_device_transmit h t]) k"
  by (simp add: nth_result_def)

lemma transmit_until_failure_all_ok:
  "(\<And>k. k < length ts \<Longrightarrow> nth_result env h ts tr k = ESP_OK) \<Longrightarrow>
   transmit_until_failure env h ts tr = (ESP_OK, tr @ map (Spi_device_transmit h) ts)"
proof (induction ts arbitrary: tr)
  case Nil
  then show ?case by simp
next
  case (Cons t ts)
  have first: "spi_device_transmit_ret env tr h t = ESP_OK"
    using Cons.prems [of 0] by (simp add: nth_result_Cons_0)
  have rest: "\<And>k. k < length ts \<Longrightarrow> nth_result env h ts (tr @ [Spi_device_transmit h t]) k = ESP_OK"
    using Cons.prems [of "Suc _"] by (simp add: nth_result_Cons_Suc)
  show ?case
    using Cons.IH [OF rest] first by (simp add: spi_device_transmit_def)
qed

lemma transmit_until_failure_first_failure:
  "k < length ts \<Longrightarrow> (\<And>j. j < k \<Longrightarrow> nth_result env h ts tr j = ESP_OK) \<Longrightarrow>
   nth_result env h ts tr k \<noteq> ESP_OK \<Longrightarrow>
   transmit_until_failure env h ts tr
     = (nth_result env h ts tr k, tr @ map (Spi_device_transmit h) (take (Suc k) ts))"
proof (induction ts arbitrary: tr k)
  case Nil
  then show ?case by simp
next
  case (Cons t ts)
  show ?case
  proof (cases k)
    case 0
    then show ?thesis
      using Cons.prems(3) by (simp add: nth_result_Cons_0 spi_device_transmit_def)
  next
    case (Suc k')
    have first: "spi_device_transmit_ret env tr h t = ESP_OK"
      using Cons.prems(2) [of 0] Suc by (simp add: nth_result_Cons_0)
    have before: "\<And>j. j < k' \<Longrightarrow> nth_result env h ts (tr @ [Spi_device_transmit h t]) j = ESP_OK"
      using Cons.prems(2) [of "Suc _"] Suc by (simp add: nth_result_Cons_Suc)
    have fails: "nth_result env h ts (tr @ [Spi_device_transmit h t]) k' \<noteq> ESP_OK"
      using Cons.prems(3) Suc by (simp add: nth_result_Cons_Suc)
    have "k' < length ts" using Cons.prems(1) Suc by simp
    from Cons.IH [OF this before fails] show ?thesis
      using first Suc by (simp add: spi_device_transmit_def nth_result_Cons_Suc)
  qed
qed

lemma transmissions_map_transmit:
  "transmissions (map (Spi_device_transmit h) ts) = ts"
  by (induction ts) simp_all

lemma transmissions_append:
  "transmissions (xs @ ys) = transmissions xs @ transmissions ys"
  by (induction xs rule: transmissions.induct) simp_all

lemma set_dot_off_transmit:
  assumes "i < 8"
  shows "ftb8md_set_dot env (Some h) (int i) False tr
       = spi_device_transmit env (Some h) (dot_off_transaction i) tr"
  using assms by (simp add: set_dot_transmit dot_off_transaction_def)

lemma clear_display_loop_sequence:
  "i \<le> 8 \<Longrightarrow>
   clear_display_loop env (Some h) (int i) tr
     = transmit_until_failure env (Some h) (map dot_off_transaction [i..<8]) tr"
proof (induction "8 - i" arbitrary: i tr)
  case 0
  then have "i = 8" by simp
  then show ?case
    by (subst clear_display_loop.simps) (simp add: FTB8MD_NUM_DIGITS_def)
next
  case (Suc m)
  then have i: "i < 8" by simp
  have IH: "\<And>tr'. clear_display_loop env (Some h) (int i + 1) tr'
      = transmit_until_failure env (Some h) (map dot_off_transaction [Suc i..<8]) tr'"
    using Suc.hyps(1) [of "Suc i"] Suc.hyps(2) i by (simp add: add.commute)
  show ?case
    using i
    by (subst clear_display_loop.simps)
       (simp add: FTB8MD_NUM_DIGITS_def set_dot_off_transmit upt_conv_Cons IH
          split: prod.splits)
qed

lemma clear_display_sequence:
  "ftb8md_clear_display env (Some h) tr
     = transmit_until_failure env (Some h) clear_display_transactions tr"
proof -
  have cmd: "memset_chr (set_dcram_byte1_digit
               (set_dcram_byte1_prefix DisplayCommand_zero CMD_PREFIX_DCRAM) 0) 0x20 8
           = [0x20, 0x20, 0x20, 0x20, 0x20, 0x20, 0x20, 0x20, 0x20]"
    using dcram_byte1 [of 0]
    by (simp add: cmd_defs const_defs replicate_9) (simp add: numeral_eq_Suc)
  have loop: "\<And>tr'. clear_display_loop env (Some h) 0 tr'
      = transmit_until_failure env (Some h) (map dot_off_transaction [0..<8]) tr'"
    using clear_display_loop_sequence [of 0 env h] by simp
  show ?thesis
    by (simp add: ftb8md_clear_display_def cmd ftb8md_send_command_def loop
        clear_display_transactions_def FTB8MD_NUM_DIGITS_def spi_device_transmit_def Let_def)
qed

lemma clear_display_wire_bytes:
  "map wire_bytes clear_display_transactions
     = [[0x20, 0x20, 0x20, 0x20, 0x20, 0x20, 0x20, 0x20, 0x20],
        [0x60, 0], [0x61, 0], [0x62, 0], [0x63, 0], [0x64, 0], [0x65, 0], [0x66, 0], [0x67, 0]]"
  by (simp add: clear_display_transactions_def dot_off_transaction_def wire_bytes_def upt_rec)

lemma length_clear_display_transactions: "length clear_display_transactions = 9"
  by (simp add: clear_display_transactions_def)

lemma completed_all_ok:
  "(\<And>k. k < length ts \<Longrightarrow> nth_result env h ts tr k = ESP_OK) \<Longrightarrow>
   completed env tr (map (Spi_device_transmit h) ts) = ts"
proof (induction ts arbitrary: tr)
  case Nil
  then show ?case by simp
next
  case (Cons t ts)
  have first: "spi_device_transmit_ret env tr h t = ESP_OK"
    using Cons.prems [of 0] by (simp add: nth_result_Cons_0)
  have rest: "\<And>k. k < length ts \<Longrightarrow> nth_result env h ts (tr @ [Spi_device_transmit h t]) k = ESP_OK"
    using Cons.prems [of "Suc _"] by (simp add: nth_result_Cons_Suc)
  show ?case
    using Cons.IH [OF rest] first by simp
qed

lemma completed_first_failure:
  "k < length ts \<Longrightarrow> (\<And>j. j < k \<Longrightarrow> nth_result env h ts tr j = ESP_OK) \<Longrightarrow>
   nth_result env h ts tr k \<noteq> ESP_OK \<Longrightarrow>
   completed env tr (map (Spi_device_transmit h) (take (Suc k) ts)) = take k ts"
proof (induction ts arbitrary: tr k)
  case Nil
  then show ?case by simp
next
  case (Cons t ts)
  show ?case
  proof (cases k)
    case 0
    then show ?thesis
      using Cons.prems(3) by (simp add: nth_result_Cons_0)
  next
    case (Suc k')
    have first: "spi_device_transmit_ret env tr h t = ESP_OK"
      using Cons.prems(2) [of 0] Suc by (simp add: nth_result_Cons_0)
    have before: "\<And>j. j < k' \<Longrightarrow> nth_result env h ts (tr @ [Spi_device_transmit h t]) j = ESP_OK"
      using Cons.prems(2) [of "Suc _"] Suc by (simp add: nth_result_Cons_Suc)
    have fails: "nth_result env h ts (tr @ [Spi_device_transmit h t]) k' \<noteq> ESP_OK"
      using Cons.prems(3) Suc by (simp add: nth_result_Cons_Suc)
    have "k' < length ts" using Cons.prems(1) Suc by simp
    from Cons.IH [OF this before fails] show ?thesis
      using first Suc by simp
  qed
qed

lemma completed_since_append:
  "completed_since env tr (tr @ evs) = completed env tr evs"
  by (simp add: completed_since_def)

lemma clear_display_all_ok:
  assumes "\<forall>k<9. nth_result env (Some h) clear_display_transactions tr k = ESP_OK"
  shows "ftb8md_clear_display env (Some h) tr
          = (ESP_OK, tr @ map (Spi_device_transmit (Some h)) clear_display_transactions)"
    and "completed_since env tr (snd (ftb8md_clear_display env (Some h) tr))
          = clear_display_transactions"
proof -
  show r: "ftb8md_clear_display env (Some h) tr
          = (ESP_OK, tr @ map (Spi_device_transmit (Some h)) clear_display_transactions)"
    unfolding clear_display_sequence using assms
    by (intro transmit_until_failure_all_ok) (simp add: length_clear_display_transactions)
  show "completed_since env tr (snd (ftb8md_clear_display env (Some h) tr))
          = clear_display_transactions"
    unfolding r snd_conv completed_since_append using assms
    by (intro completed_all_ok) (simp add: length_clear_display_transactions)
qed

lemma clear_display_first_failure:
  assumes "k < 9"
    and "\<forall>j<k. nth_result env (Some h) clear_display_transactions tr j = ESP_OK"
    and "nth_result env (Some h) clear_display_transactions tr k \<noteq> ESP_OK"
  shows "ftb8md_clear_display env (Some h) tr
          = (nth_result env (Some h) clear_display_transactions tr k,
             tr @ map (Spi_device_transmit (Some h)) (take (Suc k) clear_display_transactions))"
    and "completed_since env tr (snd (ftb8md_clear_display env (Some h) tr))
          = take k clear_display_transactions"
proof -
  show r: "ftb8md_clear_display env (Some h) tr
          = (nth_result env (Some h) clear_display_transactions tr k,
             tr @ map (Spi_device_transmit (Some h)) (take (Suc k) clear_display_transactions))"
    unfolding clear_display_sequence using assms
    by (intro transmit_until_failure_first_failure)
       (simp_all add: length_clear_display_transactions)
  show "completed_since env tr (snd (ftb8md_clear_display env (Some h) tr))
          = take k clear_display_transactions"
    unfolding r snd_conv completed_since_append using assms
    by (intro completed_first_failure) (simp_all add: length_clear_display_transactions)
qed

lemma take_3_clear_display_wire_bytes:
  "map wire_bytes (take 3 clear_display_transactions)
     = [[0x20, 0x20, 0x20, 0x20, 0x20, 0x20, 0x20, 0x20, 0x20], [0x60, 0], [0x61, 0]]"
  by (simp add: clear_display_transactions_def dot_off_transaction_def wire_bytes_def upt_rec)

text \<open>
  C3: \<open>ftb8md_clear_display\<close> on a non-null handle transmits the transactions of
  \<open>clear_display_transactions\<close> in order: one DCRAM packet of 8 spaces (0x20) from digit 0,
  then one dot-off ADRAM packet for each of the digits 0 to 7. When all succeed, exactly these
  9 are transmitted, all 9 complete and \<open>ESP_OK\<close> is returned. When transmission number
  \<open>k\<close> (from 0) is the first to fail, its result is returned at once: it is the last one
  handed to the transport, none of the remaining sub-steps is attempted, and exactly the \<open>k\<close>
  transmissions before it have completed. In particular, when the third dot-off (digit 2,
  \<open>k = 3\<close>) fails, exactly 3 transmissions have completed, the text clear and the dot-offs
  of digits 0 and 1, and that failure is returned.
\<close>

theorem clear_display_transmissions:
  "map wire_bytes clear_display_transactions
     = [[0x20, 0x20, 0x20, 0x20, 0x20, 0x20, 0x20, 0x20, 0x20],
        [0x60, 0], [0x61, 0], [0x62, 0], [0x63, 0], [0x64, 0], [0x65, 0], [0x66, 0], [0x67, 0]]
   \<and> ((\<forall>k<9. nth_result env (Some h) clear_display_transactions tr k = ESP_OK) \<longrightarrow>
        ftb8md_clear_display env (Some h) tr
          = (ESP_OK, tr @ map (Spi_device_transmit (Some h)) clear_display_transactions)
        \<and> completed_since env tr (snd (ftb8md_clear_display env (Some h) tr))
          = clear_display_transactions
        \<and> length (completed_since env tr (snd (ftb8md_clear_display env (Some h) tr))) = 9)
   \<and> (\<forall>k<9. (\<forall>j<k. nth_result env (Some h) clear_display_transactions tr j = ESP_OK)
             \<and> nth_result env (Some h) clear_display_transactions tr k \<noteq> ESP_OK \<longrightarrow>
        ftb8md_clear_display env (Some h) tr
          = (nth_result env (Some h) clear_display_transactions tr k,
             tr @ map (Spi_device_transmit (Some h)) (take (Suc k) clear_display_transactions))
        \<and> completed_since env tr (snd (ftb8md_clear_display env (Some h) tr))
          = take k clear_display_transactions
        \<and> length (completed_since env tr (snd (ftb8md_clear_display env (Some h) tr))) = k)
   \<and> ((\<forall>j<3. nth_result env (Some h) clear_display_transactions tr j = ESP_OK)
        \<and> nth_result env (Some h) clear_display_transactions tr 3 \<noteq> ESP_OK \<longrightarrow>
        fst (ftb8md_clear_display env (Some h) tr)
          = spi_device_transmit_ret env
              (tr @ map (Spi_device_transmit (Some h)) (take 3 clear_display_transactions))
              (Some h) (dot_off_transaction 2)
        \<and> fst (ftb8md_clear_display env (Some h) tr) \<noteq> ESP_OK
        \<and> length (completed_since env tr (snd (ftb8md_clear_display env (Some h) tr))) = 3
        \<and> map wire_bytes (completed_since env tr (snd (ftb8md_clear_display env (Some h) tr)))
          = [[0x20, 0x20, 0x20, 0x20, 0x20, 0x20, 0x20, 0x20, 0x20], [0x60, 0], [0x61, 0]]
        \<and> last (snd (ftb8md_clear_display env (Some h) tr))
          = Spi_device_transmit (Some h) (dot_off_transaction 2))"
proof (intro conjI allI impI)
  show "map wire_bytes clear_display_transactions
     = [[0x20, 0x20, 0x20, 0x20, 0x20, 0x20, 0x20, 0x20, 0x20],
        [0x60, 0], [0x61, 0], [0x62, 0], [0x63, 0], [0x64, 0], [0x65, 0], [0x66, 0], [0x67, 0]]"
    by (rule clear_display_wire_bytes)
next
  assume ok: "\<forall>k<9. nth_result env (Some h) clear_display_transactions tr k = ESP_OK"
  show "ftb8md_clear_display env (Some h) tr
          = (ESP_OK, tr @ map (Spi_device_transmit (Some h)) clear_display_transactions)"
    by (rule clear_display_all_ok(1) [OF ok])
  show "completed_since env tr (snd (ftb8md_clear_display env (Some h) tr))
          = clear_display_transactions"
    by (rule clear_display_all_ok(2) [OF ok])
  show "length (completed_since env tr (snd (ftb8md_clear_display env (Some h) tr))) = 9"
    by (simp add: clear_display_all_ok(2) [OF ok] length_clear_display_transactions)
next
  fix k
  assume k: "k < 9"
    and "(\<forall>j<k. nth_result env (Some h) clear_display_transactions tr j = ESP_OK)
             \<and> nth_result env (Some h) clear_display_transactions tr k \<noteq> ESP_OK"
  then have before: "\<forall>j<k. nth_result env (Some h) clear_display_transactions tr j = ESP_OK"
    and fails: "nth_result env (Some h) clear_display_transactions tr k \<noteq> ESP_OK"
    by simp_all
  show "ftb8md_clear_display env (Some h) tr
          = (nth_result env (Some h) clear_display_transactions tr k,
             tr @ map (Spi_device_transmit (Some h)) (take (Suc k) clear_display_transactions))"
    by (rule clear_display_first_failure(1) [OF k before fails])
  show "completed_since env tr (snd (ftb8md_clear_display env (Some h) tr))
          = take k clear_display_transactions"
    by (rule clear_display_first_failure(2) [OF k before fails])
  show "length (completed_since env tr (snd (ftb8md_clear_display env (Some h) tr))) = k"
    using k
    by (simp add: clear_display_first_failure(2) [OF k before fails]
        length_clear_display_transactions)
next
  assume "(\<forall>j<3. nth_result env (Some h) clear_display_transactions tr j = ESP_OK)
        \<and> nth_result env (Some h) clear_display_transactions tr 3 \<noteq> ESP_OK"
  then have before: "\<forall>j<3. nth_result env (Some h) clear_display_transactions tr j = ESP_OK"
    and fails: "nth_result env (Some h) clear_display_transactions tr 3 \<noteq> ESP_OK"
    by simp_all
  have k: "(3 :: nat) < 9" by simp
  note r = clear_display_first_failure(1) [OF k before fails]
  note c = clear_display_first_failure(2) [OF k before fails]
  have third: "clear_display_transactions ! 3 = dot_off_transaction 2"
    by (simp add: clear_display_transactions_def upt_rec numeral_2_eq_2)
  have res3: "nth_result env (Some h) clear_display_transactions tr 3
      = spi_device_transmit_ret env
          (tr @ map (Spi_device_transmit (Some h)) (take 3 clear_display_transactions))
          (Some h) (dot_off_transaction 2)"
    by (simp add: nth_result_def third)
  show "fst (ftb8md_clear_display env (Some h) tr)
          = spi_device_transmit_ret env
              (tr @ map (Spi_device_transmit (Some h)) (take 3 clear_display_transactions))
              (Some h) (dot_off_transaction 2)"
    by (simp add: r res3)
  show "fst (ftb8md_clear_display env (Some h) tr) \<noteq> ESP_OK"
    using fails by (simp add: r)
  show "length (completed_since env tr (snd (ftb8md_clear_display env (Some h) tr))) = 3"
    by (simp add: c length_clear_display_transactions)
  show "map wire_bytes (completed_since env tr (snd (ftb8md_clear_display env (Some h) tr)))
          = [[0x20, 0x20, 0x20, 0x20, 0x20, 0x20, 0x20, 0x20, 0x20], [0x60, 0], [0x61, 0]]"
    unfolding c by (rule take_3_clear_display_wire_bytes)
  show "last (snd (ftb8md_clear_display env (Some h) tr))
          = Spi_device_transmit (Some h) (dot_off_transaction 2)"
    unfolding r snd_conv
    by (simp add: clear_display_transactions_def upt_rec numeral_2_eq_2)
qed

theorem clear_display_transmissions_witness:
  "fst (ftb8md_clear_display (failing_transport 3 (-1)) (Some 1) []) = -1
   \<and> length (completed_since (failing_transport 3 (-1)) []
         (snd (ftb8md_clear_display (failing_transport 3 (-1)) (Some 1) []))) = 3
   \<and> map wire_bytes (completed_since (failing_transport 3 (-1)) []
         (snd (ftb8md_clear_display (failing_transport 3 (-1)) (Some 1) [])))
       = [[0x20, 0x20, 0x20, 0x20, 0x20, 0x20, 0x20, 0x20, 0x20], [0x60, 0], [0x61, 0]]
   \<and> last (snd (ftb8md_clear_display (failing_transport 3 (-1)) (Some 1) []))
       = Spi_device_transmit (Some 1) (dot_off_transaction 2)
   \<and> ftb8md_clear_display reliable_collaborators (Some 1) []
       = (ESP_OK, map (Spi_device_transmit (Some 1)) clear_display_transactions)
   \<and> length (completed_since reliable_collaborators []
         (snd (ftb8md_clear_display reliable_collaborators (Some 1) []))) = 9"
proof -
  let ?env = "failing_transport 3 (-1)"
  have res: "\<And>k h. k < 9 \<Longrightarrow> nth_result ?env h clear_display_transactions [] k
      = (if k = 3 then -1 else ESP_OK)"
    by (simp add: nth_result_def failing_transport_def transmissions_map_transmit
        length_clear_display_transactions)
  have hyp: "(\<forall>j<3. nth_result ?env (Some 1) clear_display_transactions [] j = ESP_OK)
      \<and> nth_result ?env (Some 1) clear_display_transactions [] 3 \<noteq> ESP_OK"
    by (simp add: res ESP_OK_def)
  note third = clear_display_transmissions
      [of ?env 1 "[]", THEN conjunct2, THEN conjunct2, THEN conjunct2, THEN mp, OF hyp]
  have ret: "spi_device_transmit_ret ?env
      ([] @ map (Spi_device_transmit (Some 1)) (take 3 clear_display_transactions))
      (Some 1) (dot_off_transaction 2) = -1"
    by (simp add: failing_transport_def transmissions_map_transmit
        length_clear_display_transactions)
  have failing_ret: "fst (ftb8md_clear_display ?env (Some 1) []) = -1"
    using third [THEN conjunct1] unfolding ret .
  have ok: "\<forall>k<9. nth_result reliable_collaborators (Some 1) clear_display_transactions [] k
      = ESP_OK"
    by (simp add: nth_result_def reliable_collaborators_def)
  note all = clear_display_transmissions
      [of reliable_collaborators 1 "[]", THEN conjunct2, THEN conjunct1, THEN mp, OF ok]
  have reliable: "ftb8md_clear_display reliable_collaborators (Some 1) []
      = (ESP_OK, map (Spi_device_transmit (Some 1)) clear_display_transactions)"
    using all [THEN conjunct1] by simp
  show ?thesis
    using failing_ret third [THEN conjunct2, THEN conjunct2] reliable
      all [THEN conjunct2, THEN conjunct2]
    by blast
qed

subsection \<open>Registration\<close>

lemma digit_set_cmd:
  "set_ctrl_arg (set_ctrl_prefix DisplayCommand_zero CMD_DIGIT_SET) (FTB8MD_NUM_DIGITS - 1)
     = [0xE0, 0x07, 0, 0, 0, 0, 0, 0, 0]"
  by (simp add: cmd_defs const_defs replicate_9)

lemma display_on_cmd:
  "set_ctrl_prefix [0xE0, 0x07, 0, 0, 0, 0, 0, 0, 0] CMD_DISPLAY_ON
     = [0xE8, 0x07, 0, 0, 0, 0, 0, 0, 0]"
  by (simp add: cmd_defs const_defs)

lemma send_command_transmit:
  "0 < len \<Longrightarrow>
   ftb8md_send_command env (Some h) (Some raw) len tr
     = spi_device_transmit env (Some h) \<lparr>length_bits = len * 8, tx_buffer = raw\<rparr> tr"
  by (simp add: ftb8md_send_command_def)

lemma send_command_null_handle:
  "ftb8md_send_command env None cmd len tr = (ESP_ERR_INVALID_ARG, tr)"
  by (simp add: ftb8md_send_command_def split: option.splits)

text \<open>
  C2: with a reset pin (\<open>reset_pin \<ge> 0\<close>) and collaborators that all succeed,
  \<open>ftb8md_device_register\<close> configures the pin, drives it low, asks for a delay of 10 ms,
  drives it high, asks for a delay of 10 ms, binds the SPI device, and then transmits exactly
  three 2-byte control packets: \<open>[0xE0, 0x07]\<close> (8 digits), \<open>[0xE4, 0xF0]\<close> (dimming 240)
  and \<open>[0xE8, 0x07]\<close> (display on; the argument byte is the one left from the digit
  count). It returns the bound handle. Nothing is transmitted before the second delay.
\<close>

theorem device_register_sequence:
  assumes "0 \<le> reset_pin"
    and "\<forall>t c. gpio_config_ret env t c = ESP_OK"
    and "\<forall>t host c. spi_bus_add_device_ret env t host c = (ESP_OK, Some h)"
    and "\<forall>t hd x. spi_device_transmit_ret env t hd x = ESP_OK"
  shows "ftb8md_device_register env host_id cs_pin reset_pin tr =
     (Some h,
      tr @ [Gpio_config \<lparr>pin_bit_mask = push_bit (nat reset_pin) 1, mode_output = True,
                         pull_up_en = False, pull_down_en = False, intr_enabled = False\<rparr>,
            Gpio_set_level reset_pin 0, VTaskDelay_ms 10,
            Gpio_set_level reset_pin 1, VTaskDelay_ms 10,
            Spi_bus_add_device host_id
              \<lparr>clock_speed_hz = 500000, mode = 3, spics_io_num = cs_pin, queue_size = 1,
               flag_bit_lsbfirst = True\<rparr>,
            Spi_device_transmit (Some h)
              \<lparr>length_bits = 16, tx_buffer = [0xE0, 0x07, 0, 0, 0, 0, 0, 0, 0]\<rparr>,
            Spi_device_transmit (Some h)
              \<lparr>length_bits = 16, tx_buffer = [0xE4, 0xF0, 0, 0, 0, 0, 0, 0, 0]\<rparr>,
            Spi_device_transmit (Some h)
              \<lparr>length_bits = 16, tx_buffer = [0xE8, 0x07, 0, 0, 0, 0, 0, 0, 0]\<rparr>,
            Esp_logi ''VFD display initialized successfully''])
   \<and> packets_sent tr (snd (ftb8md_device_register env host_id cs_pin reset_pin tr))
       = [[0xE0, 0x07], [0xE4, 0xF0], [0xE8, 0x07]]"
proof -
  have level: "(240 :: u8) < 240 \<longleftrightarrow> False" by simp
  have reg: "ftb8md_device_register env host_id cs_pin reset_pin tr =
     (Some h,
      tr @ [Gpio_config \<lparr>pin_bit_mask = push_bit (nat reset_pin) 1, mode_output = True,
                         pull_up_en = False, pull_down_en = False, intr_enabled = False\<rparr>,
            Gpio_set_level reset_pin 0, VTaskDelay_ms 10,
            Gpio_set_level reset_pin 1, VTaskDelay_ms 10,
            Spi_bus_add_device host_id
              \<lparr>clock_speed_hz = 500000, mode = 3, spics_io_num = cs_pin, queue_size = 1,
               flag_bit_lsbfirst = True\<rparr>,
            Spi_device_transmit (Some h)
              \<lparr>length_bits = 16, tx_buffer = [0xE0, 0x07, 0, 0, 0, 0, 0, 0, 0]\<rparr>,
            Spi_device_transmit (Some h)
              \<lparr>length_bits = 16, tx_buffer = [0xE4, 0xF0, 0, 0, 0, 0, 0, 0, 0]\<rparr>,
            Spi_device_transmit (Some h)
              \<lparr>length_bits = 16, tx_buffer = [0xE8, 0x07, 0, 0, 0, 0, 0, 0, 0]\<rparr>,
            Esp_logi ''VFD display initialized successfully''])"
    using assms
    by (simp add: ftb8md_device_register_def Let_def digit_set_cmd display_on_cmd
        send_command_transmit set_dimming_transmit spi_device_transmit_def
        FTB8MD_SPI_CLOCK_HZ_def FTB8MD_MAX_DIMMING_def)
  show ?thesis
    unfolding reg by (simp add: packets_sent_def wire_bytes_def)
qed

theorem device_register_sequence_witness:
  "ftb8md_device_register reliable_collaborators 1 5 4 [] =
     (Some 1,
      [Gpio_config \<lparr>pin_bit_mask = 16, mode_output = True,
                    pull_up_en = False, pull_down_en = False, intr_enabled = False\<rparr>,
       Gpio_set_level 4 0, VTaskDelay_ms 10,
       Gpio_set_level 4 1, VTaskDelay_ms 10,
       Spi_bus_add_device 1
         \<lparr>clock_speed_hz = 500000, mode = 3, spics_io_num = 5, queue_size = 1,
          flag_bit_lsbfirst = True\<rparr>,
       Spi_device_transmit (Some 1)
         \<lparr>length_bits = 16, tx_buffer = [0xE0, 0x07, 0, 0, 0, 0, 0, 0, 0]\<rparr>,
       Spi_device_transmit (Some 1)
         \<lparr>length_bits = 16, tx_buffer = [0xE4, 0xF0, 0, 0, 0, 0, 0, 0, 0]\<rparr>,
       Spi_device_transmit (Some 1)
         \<lparr>length_bits = 16, tx_buffer = [0xE8, 0x07, 0, 0, 0, 0, 0, 0, 0]\<rparr>,
       Esp_logi ''VFD display initialized successfully''])"
proof -
  have h1: "(0 :: int) \<le> 4" by simp
  have h2: "\<forall>t c. gpio_config_ret reliable_collaborators t c = ESP_OK"
    by (simp add: reliable_collaborators_def)
  have h3: "\<forall>t host c. spi_bus_add_device_ret reliable_collaborators t host c = (ESP_OK, Some 1)"
    by (simp add: reliable_collaborators_def)
  have h4: "\<forall>t hd x. spi_device_transmit_ret reliable_collaborators t hd x = ESP_OK"
    by (simp add: reliable_collaborators_def)
  show ?thesis
    using device_register_sequence [OF h1 h2 h3 h4, of 1 5 "[]", THEN conjunct1]
    by simp
qed

text \<open>
  The two sibling steps of the dimming step log a failure of their transmission.
\<close>

lemma device_register_digit_count_failure_logged:
  "ftb8md_device_register (failing_transport 0 (-1)) 1 5 4 [] =
     (Some 1,
      [Gpio_config \<lparr>pin_bit_mask = 16, mode_output = True,
                    pull_up_en = False, pull_down_en = False, intr_enabled = False\<rparr>,
       Gpio_set_level 4 0, VTaskDelay_ms 10,
       Gpio_set_level 4 1, VTaskDelay_ms 10,
       Spi_bus_add_device 1
         \<lparr>clock_speed_hz = 500000, mode = 3, spics_io_num = 5, queue_size = 1,
          flag_bit_lsbfirst = True\<rparr>,
       Spi_device_transmit (Some 1)
         \<lparr>length_bits = 16, tx_buffer = [0xE0, 0x07, 0, 0, 0, 0, 0, 0, 0]\<rparr>,
       Esp_loge ''Failed to set digit count'' (-1),
       Spi_device_transmit (Some 1)
         \<lparr>length_bits = 16, tx_buffer = [0xE4, 0xF0, 0, 0, 0, 0, 0, 0, 0]\<rparr>,
       Spi_device_transmit (Some 1)
         \<lparr>length_bits = 16, tx_buffer = [0xE8, 0x07, 0, 0, 0, 0, 0, 0, 0]\<rparr>,
       Esp_logi ''VFD display initialized successfully''])"
  by (simp add: ftb8md_device_register_def Let_def digit_set_cmd display_on_cmd
        send_command_transmit set_dimming_transmit spi_device_transmit_def
        FTB8MD_SPI_CLOCK_HZ_def FTB8MD_MAX_DIMMING_def failing_transport_def ESP_OK_def)

lemma device_register_display_on_failure_logged:
  "ftb8md_device_register (failing_transport 2 (-1)) 1 5 4 [] =
     (Some 1,
      [Gpio_config \<lparr>pin_bit_mask = 16, mode_output = True,
                    pull_up_en = False, pull_down_en = False, intr_enabled = False\<rparr>,
       Gpio_set_level 4 0, VTaskDelay_ms 10,
       Gpio_set_level 4 1, VTaskDelay_ms 10,
       Spi_bus_add_device 1
         \<lparr>clock_speed_hz = 500000, mode = 3, spics_io_num = 5, queue_size = 1,
          flag_bit_lsbfirst = True\<rparr>,
       Spi_device_transmit (Some 1)
         \<lparr>length_bits = 16, tx_buffer = [0xE0, 0x07, 0, 0, 0, 0, 0, 0, 0]\<rparr>,
       Spi_device_transmit (Some 1)
         \<lparr>length_bits = 16, tx_buffer = [0xE4, 0xF0, 0, 0, 0, 0, 0, 0, 0]\<rparr>,
       Spi_device_transmit (Some 1)
         \<lparr>length_bits = 16, tx_buffer = [0xE8, 0x07, 0, 0, 0, 0, 0, 0, 0]\<rparr>,
       Esp_loge ''Failed to turn on display'' (-1),
       Esp_logi ''VFD display initialized successfully''])"
  by (simp add: ftb8md_device_register_def Let_def digit_set_cmd display_on_cmd
        send_command_transmit set_dimming_transmit spi_device_transmit_def
        FTB8MD_SPI_CLOCK_HZ_def FTB8MD_MAX_DIMMING_def failing_transport_def ESP_OK_def)

lemma device_register_bind_failure:
  assumes "\<forall>t host c. fst (spi_bus_add_device_ret env t host c) \<noteq> ESP_OK"
  shows "fst (ftb8md_device_register env host_id cs_pin reset_pin tr) = None"
    and "transmissions (drop (length tr)
           (snd (ftb8md_device_register env host_id cs_pin reset_pin tr))) = []"
  using assms by (simp_all add: ftb8md_device_register_def Let_def)

lemma device_register_lenient:
  assumes "\<forall>t c. gpio_config_ret env t c = ESP_OK"
    and "\<forall>t host c. spi_bus_add_device_ret env t host c = (ESP_OK, handle)"
  shows "fst (ftb8md_device_register env host_id cs_pin reset_pin tr) = handle"
  using assms by (simp add: ftb8md_device_register_def Let_def)

text \<open>
  C9: when the transmission of the dimming step fails (here the second transmission, with
  the code -1), \<open>ftb8md_device_register\<close> still returns the handle, but the trace holds no
  error log: the value \<open>ftb8md_set_dimming\<close> returns is dropped, where the digit-count and
  display-on steps log theirs.
\<close>

theorem device_register_dimming_failure_silent:
  "ftb8md_device_register (failing_transport 1 (-1)) 1 5 4 [] =
     (Some 1,
      [Gpio_config \<lparr>pin_bit_mask = 16, mode_output = True,
                    pull_up_en = False, pull_down_en = False, intr_enabled = False\<rparr>,
       Gpio_set_level 4 0, VTaskDelay_ms 10,
       Gpio_set_level 4 1, VTaskDelay_ms 10,
       Spi_bus_add_device 1
         \<lparr>clock_speed_hz = 500000, mode = 3, spics_io_num = 5, queue_size = 1,
          flag_bit_lsbfirst = True\<rparr>,
       Spi_device_transmit (Some 1)
         \<lparr>length_bits = 16, tx_buffer = [0xE0, 0x07, 0, 0, 0, 0, 0, 0, 0]\<rparr>,
       Spi_device_transmit (Some 1)
         \<lparr>length_bits = 16, tx_buffer = [0xE4, 0xF0, 0, 0, 0, 0, 0, 0, 0]\<rparr>,
       Spi_device_transmit (Some 1)
         \<lparr>length_bits = 16, tx_buffer = [0xE8, 0x07, 0, 0, 0, 0, 0, 0, 0]\<rparr>,
       Esp_logi ''VFD display initialized successfully''])
   \<and> fst (ftb8md_set_dimming (failing_transport 1 (-1)) (Some 1) 240
             [Spi_device_transmit (Some 1)
                \<lparr>length_bits = 16, tx_buffer = [0xE0, 0x07, 0, 0, 0, 0, 0, 0, 0]\<rparr>]) = -1"
  by (simp add: ftb8md_device_register_def Let_def digit_set_cmd display_on_cmd
        send_command_transmit set_dimming_transmit spi_device_transmit_def
        FTB8MD_SPI_CLOCK_HZ_def FTB8MD_MAX_DIMMING_def failing_transport_def ESP_OK_def)

subsection \<open>The size of every transaction\<close>

lemma all_sizes_ok_transmit:
  "all_sizes_ok tr (snd (spi_device_transmit env h t tr)) = packet_size_ok t"
  by (simp add: all_sizes_ok_def spi_device_transmit_def)

lemma sizes_sent_transmit:
  "sizes_sent tr (snd (spi_device_transmit env h t tr)) = [length (wire_bytes t)]"
  by (simp add: sizes_sent_def packets_sent_transmit)

lemma transmit_until_failure_trace:
  "\<exists>n\<le>length ts. (ts \<noteq> [] \<longrightarrow> 1 \<le> n)
      \<and> snd (transmit_until_failure env h ts tr) = tr @ map (Spi_device_transmit h) (take n ts)"
proof (induction ts arbitrary: tr)
  case Nil
  then show ?case by simp
next
  case (Cons t ts)
  show ?case
  proof (cases "spi_device_transmit_ret env tr h t = ESP_OK")
    case True
    obtain n where n: "n \<le> length ts"
      "snd (transmit_until_failure env h ts (tr @ [Spi_device_transmit h t]))
         = (tr @ [Spi_device_transmit h t]) @ map (Spi_device_transmit h) (take n ts)"
      using Cons.IH by blast
    show ?thesis
      using n True
      by (intro exI [of _ "Suc n"]) (simp add: spi_device_transmit_def)
  next
    case False
    then show ?thesis
      by (intro exI [of _ 1]) (simp add: spi_device_transmit_def)
  qed
qed

lemma clear_display_sizes:
  "all_sizes_ok tr (snd (ftb8md_clear_display env (Some h) tr))
   \<and> 1 \<le> length (sizes_sent tr (snd (ftb8md_clear_display env (Some h) tr)))
   \<and> sizes_sent tr (snd (ftb8md_clear_display env (Some h) tr))
       = take (length (sizes_sent tr (snd (ftb8md_clear_display env (Some h) tr))))
           [9, 2, 2, 2, 2, 2, 2, 2, 2]"
proof -
  obtain n where n: "n \<le> 9" "1 \<le> n"
    and tr': "snd (ftb8md_clear_display env (Some h) tr)
       = tr @ map (Spi_device_transmit (Some h)) (take n clear_display_transactions)"
    using transmit_until_failure_trace [of clear_display_transactions env "Some h" tr]
    by (auto simp: clear_display_sequence length_clear_display_transactions
        clear_display_transactions_def)
  have all: "list_all packet_size_ok clear_display_transactions"
    by (simp add: clear_display_transactions_def dot_off_transaction_def packet_size_ok_def
        wire_bytes_def upt_rec)
  have sizes: "map (\<lambda>t. length (wire_bytes t)) clear_display_transactions
      = [9, 2, 2, 2, 2, 2, 2, 2, 2]"
    by (simp add: clear_display_transactions_def dot_off_transaction_def
        wire_bytes_def upt_rec)
  have "list_all packet_size_ok (take n clear_display_transactions)"
    using all by (auto simp: list_all_iff dest: in_set_takeD)
  moreover have "sizes_sent tr (snd (ftb8md_clear_display env (Some h) tr))
      = take n [9, 2, 2, 2, 2, 2, 2, 2, 2]"
    unfolding tr' sizes [symmetric]
    by (simp add: sizes_sent_def packets_sent_def transmissions_map_transmit take_map o_def)
  ultimately show ?thesis
    using n by (simp add: tr' all_sizes_ok_def transmissions_map_transmit)
qed

lemma set_dimming_null_handle:
  "ftb8md_set_dimming env None level tr = (ESP_ERR_INVALID_ARG, tr)"
  by (simp add: ftb8md_set_dimming_def)

text \<open>
  What registration leaves in the trace, for any collaborators: no transaction when no handle
  is returned, the three configuration transactions otherwise.
\<close>

lemma transmissions_snoc_loge [simp]:
  "transmissions (xs @ [Esp_loge m e]) = transmissions xs"
  by (simp add: transmissions_append)

lemma transmissions_snoc_logi [simp]:
  "transmissions (xs @ [Esp_logi m]) = transmissions xs"
  by (simp add: transmissions_append)

lemma transmissions_snoc_transmit [simp]:
  "transmissions (xs @ [Spi_device_transmit h t]) = transmissions xs @ [t]"
  by (simp add: transmissions_append)

lemma device_register_trace:
  "\<exists>evs. snd (ftb8md_device_register env host_id cs_pin reset_pin tr) = tr @ evs
      \<and> transmissions evs =
          (case fst (ftb8md_device_register env host_id cs_pin reset_pin tr) of
             None \<Rightarrow> []
           | Some h \<Rightarrow>
               [\<lparr>length_bits = 16, tx_buffer = [0xE0, 0x07, 0, 0, 0, 0, 0, 0, 0]\<rparr>,
                \<lparr>length_bits = 16, tx_buffer = [0xE4, 0xF0, 0, 0, 0, 0, 0, 0, 0]\<rparr>,
                \<lparr>length_bits = 16, tx_buffer = [0xE8, 0x07, 0, 0, 0, 0, 0, 0, 0]\<rparr>])"
proof (cases "0 \<le> reset_pin")
  case True
  let ?io = "\<lparr>pin_bit_mask = push_bit (nat reset_pin) (1 :: 64 word),
     mode_output = True, pull_up_en = False, pull_down_en = False, intr_enabled = False\<rparr>"
  let ?added = "spi_bus_add_device_ret env
     (tr @ [Gpio_config ?io, Gpio_set_level reset_pin 0, VTaskDelay_ms 10,
            Gpio_set_level reset_pin 1, VTaskDelay_ms 10]) host_id
     \<lparr>clock_speed_hz = FTB8MD_SPI_CLOCK_HZ, mode = 3,
      spics_io_num = cs_pin, queue_size = 1, flag_bit_lsbfirst = True\<rparr>"
  consider (gpio) "gpio_config_ret env tr ?io \<noteq> ESP_OK"
    | (bind) "gpio_config_ret env tr ?io = ESP_OK" "fst ?added \<noteq> ESP_OK"
    | (null) "gpio_config_ret env tr ?io = ESP_OK" "fst ?added = ESP_OK" "snd ?added = None"
    | (bound) h where "gpio_config_ret env tr ?io = ESP_OK" "fst ?added = ESP_OK"
        "snd ?added = Some h"
    by (cases "snd ?added") auto
  then show ?thesis
  proof cases
    case gpio
    then show ?thesis
      using True by (simp add: ftb8md_device_register_def Let_def)
  next
    case bind
    then show ?thesis
      using True by (simp add: ftb8md_device_register_def Let_def)
  next
    case null
    then show ?thesis
      using True
      by (simp add: ftb8md_device_register_def Let_def send_command_null_handle
          set_dimming_null_handle)
  next
    case bound
    then show ?thesis
      using True
      by (simp add: ftb8md_device_register_def Let_def digit_set_cmd display_on_cmd
          send_command_transmit set_dimming_transmit spi_device_transmit_def
          FTB8MD_MAX_DIMMING_def)
  qed
next
  case False
  let ?added = "spi_bus_add_device_ret env tr host_id
     \<lparr>clock_speed_hz = FTB8MD_SPI_CLOCK_HZ, mode = 3,
      spics_io_num = cs_pin, queue_size = 1, flag_bit_lsbfirst = True\<rparr>"
  consider (bind) "fst ?added \<noteq> ESP_OK"
    | (null) "fst ?added = ESP_OK" "snd ?added = None"
    | (bound) h where "fst ?added = ESP_OK" "snd ?added = Some h"
    by (cases "snd ?added") auto
  then show ?thesis
  proof cases
    case bind
    then show ?thesis
      using False by (simp add: ftb8md_device_register_def Let_def)
  next
    case null
    then show ?thesis
      using False
      by (simp add: ftb8md_device_register_def Let_def send_command_null_handle
          set_dimming_null_handle)
  next
    case bound
    then show ?thesis
      using False
      by (simp add: ftb8md_device_register_def Let_def digit_set_cmd display_on_cmd
          send_command_transmit set_dimming_transmit spi_device_transmit_def
          FTB8MD_MAX_DIMMING_def)
  qed
qed

lemma device_register_sizes:
  "all_sizes_ok tr (snd (ftb8md_device_register env host_id cs_pin reset_pin tr))
   \<and> sizes_sent tr (snd (ftb8md_device_register env host_id cs_pin reset_pin tr))
       = (if fst (ftb8md_device_register env host_id cs_pin reset_pin tr) = None then []
          else [2, 2, 2])"
proof -
  obtain evs where evs:
    "snd (ftb8md_device_register env host_id cs_pin reset_pin tr) = tr @ evs"
    "transmissions evs =
       (case fst (ftb8md_device_register env host_id cs_pin reset_pin tr) of
          None \<Rightarrow> []
        | Some h \<Rightarrow>
            [\<lparr>length_bits = 16, tx_buffer = [0xE0, 0x07, 0, 0, 0, 0, 0, 0, 0]\<rparr>,
             \<lparr>length_bits = 16, tx_buffer = [0xE4, 0xF0, 0, 0, 0, 0, 0, 0, 0]\<rparr>,
             \<lparr>length_bits = 16, tx_buffer = [0xE8, 0x07, 0, 0, 0, 0, 0, 0, 0]\<rparr>])"
    using device_register_trace [of env host_id cs_pin reset_pin tr] by blast
  show ?thesis
    by (cases "fst (ftb8md_device_register env host_id cs_pin reset_pin tr)")
       (simp_all add: evs all_sizes_ok_def sizes_sent_def packets_sent_def packet_size_ok_def
          wire_bytes_def)
qed

text \<open>
  C8: every transaction a public operation hands to the transport, with valid arguments and
  a non-null handle, is a whole number of bytes inside the 9-byte union, at least 1 and at
  most 9 (\<open>all_sizes_ok\<close>), and the number of bytes is 1 plus the payload used: 1 plus the
  number of characters written for \<open>ftb8md_show_string\<close>, 2 for the control, dot, segment
  and addressed-character packets, 6 for a custom character; \<open>ftb8md_clear_display\<close> sends
  a non-empty prefix of the sizes 9, 2, 2, 2, 2, 2, 2, 2, 2, and \<open>ftb8md_device_register\<close>
  sends three packets of 2 bytes when it returns a handle and nothing otherwise.
\<close>

theorem packet_size_invariant:
  assumes "0 \<le> digit" "digit \<le> 7" "0 \<le> char_index" "char_index \<le> 7" "length p = 5"
  shows
    "all_sizes_ok tr (snd (ftb8md_show_string env (Some h) digit (Some str) tr))
     \<and> sizes_sent tr (snd (ftb8md_show_string env (Some h) digit (Some str) tr))
         = [1 + min (strlen str) (nat (8 - digit))]
     \<and> all_sizes_ok tr (snd (ftb8md_set_dimming env (Some h) level tr))
     \<and> sizes_sent tr (snd (ftb8md_set_dimming env (Some h) level tr)) = [2]
     \<and> all_sizes_ok tr (snd (ftb8md_enter_standby env (Some h) standby tr))
     \<and> sizes_sent tr (snd (ftb8md_enter_standby env (Some h) standby tr)) = [2]
     \<and> all_sizes_ok tr (snd (ftb8md_set_display_power env (Some h) on tr))
     \<and> sizes_sent tr (snd (ftb8md_set_display_power env (Some h) on tr)) = [2]
     \<and> all_sizes_ok tr (snd (ftb8md_set_dot env (Some h) digit dot_on tr))
     \<and> sizes_sent tr (snd (ftb8md_set_dot env (Some h) digit dot_on tr)) = [2]
     \<and> all_sizes_ok tr (snd (ftb8md_set_segment env (Some h) digit segments tr))
     \<and> sizes_sent tr (snd (ftb8md_set_segment env (Some h) digit segments tr)) = [2]
     \<and> all_sizes_ok tr (snd (ftb8md_set_addressed_char env (Some h) digit char_index tr))
     \<and> sizes_sent tr (snd (ftb8md_set_addressed_char env (Some h) digit char_index tr)) = [2]
     \<and> all_sizes_ok tr (snd (ftb8md_write_custom_char env (Some h) char_index (Some p) tr))
     \<and> sizes_sent tr (snd (ftb8md_write_custom_char env (Some h) char_index (Some p) tr)) = [6]
     \<and> all_sizes_ok tr (snd (ftb8md_clear_display env (Some h) tr))
     \<and> 1 \<le> length (sizes_sent tr (snd (ftb8md_clear_display env (Some h) tr)))
     \<and> sizes_sent tr (snd (ftb8md_clear_display env (Some h) tr))
         = take (length (sizes_sent tr (snd (ftb8md_clear_display env (Some h) tr))))
             [9, 2, 2, 2, 2, 2, 2, 2, 2]
     \<and> all_sizes_ok tr (snd (ftb8md_device_register env host_id cs_pin reset_pin tr))
     \<and> sizes_sent tr (snd (ftb8md_device_register env host_id cs_pin reset_pin tr))
         = (if fst (ftb8md_device_register env host_id cs_pin reset_pin tr) = None then []
            else [2, 2, 2])"
proof -
  have n: "min (strlen str) (nat (8 - digit)) \<le> length str"
    "min (strlen str) (nat (8 - digit)) \<le> 8"
    using assms strlen_le [of str] by auto
  have show_string:
    "all_sizes_ok tr (snd (ftb8md_show_string env (Some h) digit (Some str) tr))
     \<and> sizes_sent tr (snd (ftb8md_show_string env (Some h) digit (Some str) tr))
         = [1 + min (strlen str) (nat (8 - digit))]"
    using assms n
    by (simp add: show_string_transmit all_sizes_ok_transmit sizes_sent_transmit
        packet_size_ok_def wire_bytes_def)
  have ctrl:
    "all_sizes_ok tr (snd (ftb8md_set_dimming env (Some h) level tr))
     \<and> sizes_sent tr (snd (ftb8md_set_dimming env (Some h) level tr)) = [2]
     \<and> all_sizes_ok tr (snd (ftb8md_enter_standby env (Some h) standby tr))
     \<and> sizes_sent tr (snd (ftb8md_enter_standby env (Some h) standby tr)) = [2]
     \<and> all_sizes_ok tr (snd (ftb8md_set_display_power env (Some h) on tr))
     \<and> sizes_sent tr (snd (ftb8md_set_display_power env (Some h) on tr)) = [2]"
    by (simp add: set_dimming_transmit enter_standby_transmit set_display_power_transmit
        all_sizes_ok_transmit sizes_sent_transmit packet_size_ok_def wire_bytes_def)
  have digit_ops:
    "all_sizes_ok tr (snd (ftb8md_set_dot env (Some h) digit dot_on tr))
     \<and> sizes_sent tr (snd (ftb8md_set_dot env (Some h) digit dot_on tr)) = [2]
     \<and> all_sizes_ok tr (snd (ftb8md_set_segment env (Some h) digit segments tr))
     \<and> sizes_sent tr (snd (ftb8md_set_segment env (Some h) digit segments tr)) = [2]
     \<and> all_sizes_ok tr (snd (ftb8md_set_addressed_char env (Some h) digit char_index tr))
     \<and> sizes_sent tr (snd (ftb8md_set_addressed_char env (Some h) digit char_index tr)) = [2]"
    using assms
    by (simp add: set_dot_transmit set_segment_transmit set_addressed_char_transmit
        all_sizes_ok_transmit sizes_sent_transmit packet_size_ok_def wire_bytes_def)
  have custom:
    "all_sizes_ok tr (snd (ftb8md_write_custom_char env (Some h) char_index (Some p) tr))
     \<and> sizes_sent tr (snd (ftb8md_write_custom_char env (Some h) char_index (Some p) tr)) = [6]"
    using assms
    by (simp add: write_custom_char_transmit all_sizes_ok_transmit sizes_sent_transmit
        packet_size_ok_def wire_bytes_def)
  show ?thesis
    using show_string ctrl digit_ops custom clear_display_sizes [of tr env h]
      device_register_sizes [of tr env host_id cs_pin reset_pin]
    by blast
qed


theorem packet_size_invariant_witness:
  "all_sizes_ok [] (snd (ftb8md_show_string reliable_collaborators (Some 1) 6 (Some ''HELLO'') []))
   \<and> sizes_sent [] (snd (ftb8md_show_string reliable_collaborators (Some 1) 6 (Some ''HELLO'') []))
       = [3]
   \<and> sizes_sent [] (snd (ftb8md_set_dot reliable_collaborators (Some 1) 6 True [])) = [2]
   \<and> sizes_sent []
         (snd (ftb8md_write_custom_char reliable_collaborators (Some 1) 5
                (Some [0x1F, 0x91, 0xFF, 0x00, 0x80]) [])) = [6]"
proof -
  have h1: "(0 :: int) \<le> 6" and h2: "(6 :: int) \<le> 7"
    and h3: "(0 :: int) \<le> 5" and h4: "(5 :: int) \<le> 7"
    and h5: "length [0x1F, 0x91, 0xFF, 0x00, 0x80 :: u8] = 5"
    by simp_all
  note inst = packet_size_invariant [OF h1 h2 h3 h4 h5, where tr = "[]"
      and env = reliable_collaborators and h = 1 and str = "''HELLO''" and dot_on = True]
  have ok: "all_sizes_ok []
      (snd (ftb8md_show_string reliable_collaborators (Some 1) 6 (Some ''HELLO'') []))"
    using inst by (rule conjunct1)
  have str: "sizes_sent []
      (snd (ftb8md_show_string reliable_collaborators (Some 1) 6 (Some ''HELLO'') []))
      = [1 + min (strlen ''HELLO'') (nat (8 - 6))]"
    using inst by blast
  have dot: "sizes_sent [] (snd (ftb8md_set_dot reliable_collaborators (Some 1) 6 True []))
      = [2]"
    using inst by blast
  have custom: "sizes_sent []
         (snd (ftb8md_write_custom_char reliable_collaborators (Some 1) 5
                (Some [0x1F, 0x91, 0xFF, 0x00, 0x80]) [])) = [6]"
    using inst by blast
  have len: "1 + min (strlen ''HELLO'') (nat (8 - 6)) = 3"
    by (simp add: strlen_def)
  show ?thesis
    using ok str dot custom unfolding len by (intro conjI)
qed

end
